theory Spec2Isabelle
  imports Complex_Main "HOL-Library.List_Lexorder" "HOL-Library.Char_ord"
begin

unbundle bit_operations_syntax

section \<open>frida-ps: the data model\<close>

text \<open>
  The program is \<^verbatim>\<open>src/frida_tools/ps.py\<close>. Python \<^verbatim>\<open>str\<close> values are modelled as HOL
  strings (lists of 8-bit characters, so code points below 256), compared
  lexicographically by character code as Python compares them; \<^verbatim>\<open>bytes\<close> are strings
  too. Python integers are \<^typ>\<open>int\<close>.

  An icon descriptor is the dictionary \<^verbatim>\<open>{"format": ..., "image": ...}\<close> the backend
  delivers. The \<^verbatim>\<open>parameters\<close> dictionary of a record is a map; the program reads only
  its \<^verbatim>\<open>"icons"\<close> entry, whose value is a list of icon descriptors.
\<close>

record icon =
  icon_format :: string
  icon_image :: string

type_synonym parameters = "string \<rightharpoonup> icon list"

text \<open>
  \<^verbatim>\<open>_frida.Process\<close> has \<^verbatim>\<open>pid\<close>, \<^verbatim>\<open>name\<close> and \<^verbatim>\<open>parameters\<close>; \<^verbatim>\<open>_frida.Application\<close> has
  \<^verbatim>\<open>identifier\<close> as well (the field \<open>app_identifier\<close>, since \<open>identifier\<close> is a keyword
  of Isabelle). The functions typed \<^verbatim>\<open>Union[Application, Process]\<close> in the source take
  any extension of the process record.
\<close>

record process =
  pid :: int
  name :: string
  parameters :: parameters

record application = process +
  app_identifier :: string

section \<open>The comparators and the sort\<close>

text \<open>\<^verbatim>\<open>compare_applications\<close>, lines 250-263.\<close>

definition compare_applications :: "application \<Rightarrow> application \<Rightarrow> int" where
  "compare_applications a b =
     (let a_is_running = (pid a \<noteq> 0);
          b_is_running = (pid b \<noteq> 0)
      in if a_is_running = b_is_running then
           (if name a > name b then 1
            else if name a < name b then - 1
            else 0)
         else if a_is_running then - 1
         else 1)"

text \<open>\<^verbatim>\<open>compare_processes\<close>, lines 265-278: \<^verbatim>\<open>"icons" in a.parameters\<close> tests the key.\<close>

definition compare_processes :: "process \<Rightarrow> process \<Rightarrow> int" where
  "compare_processes a b =
     (let a_has_icon = (parameters a ''icons'' \<noteq> None);
          b_has_icon = (parameters b ''icons'' \<noteq> None)
      in if a_has_icon = b_has_icon then
           (if name a > name b then 1
            else if name a < name b then - 1
            else 0)
         else if a_has_icon then - 1
         else 1)"

text \<open>
  \<^verbatim>\<open>sorted(xs, key=functools.cmp_to_key(cmp))\<close>: Python's sort is stable and compares
  keys with \<^verbatim>\<open><\<close> only, and \<^verbatim>\<open>cmp_to_key\<close> makes \<^verbatim>\<open>K(a) < K(b)\<close> mean \<^verbatim>\<open>cmp(a, b) < 0\<close>.
  For a comparator that is a weak order every stable sort gives the same list; the
  model is the stable insertion sort. An element goes in front of the first element
  that is not smaller than it, so it stays in front of the equal ones that followed
  it in the input.
\<close>

fun insort_cmp :: "('a \<Rightarrow> 'a \<Rightarrow> int) \<Rightarrow> 'a \<Rightarrow> 'a list \<Rightarrow> 'a list" where
  "insort_cmp cmp x [] = [x]"
| "insort_cmp cmp x (y # ys) =
     (if cmp y x < 0 then y # insort_cmp cmp x ys else x # y # ys)"

fun sorted_cmp :: "('a \<Rightarrow> 'a \<Rightarrow> int) \<Rightarrow> 'a list \<Rightarrow> 'a list" where
  "sorted_cmp cmp [] = []"
| "sorted_cmp cmp (x # xs) = insort_cmp cmp x (sorted_cmp cmp xs)"

section \<open>Python's built-in operations\<close>

text \<open>
  The exceptions the program can raise. An exception of the enumeration backend is
  caught by \<^verbatim>\<open>except Exception as e\<close> and only its text \<^verbatim>\<open>str(e)\<close> is used; it is
  modelled as that text.
\<close>

datatype py_error = ValueError | IndexError | ZeroDivisionError | OverflowError | OSError

text \<open>\<^verbatim>\<open>xs[i]\<close> for \<open>i \<ge> 0\<close>: IndexError out of range.\<close>

definition py_index :: "'a list \<Rightarrow> nat \<Rightarrow> py_error + 'a" where
  "py_index xs i = (if i < length xs then Inr (xs ! i) else Inl IndexError)"

text \<open>\<^verbatim>\<open>max(xs)\<close> of a non-empty list; every call is under the guard \<^verbatim>\<open>len(xs) > 0\<close>.\<close>

fun py_max :: "int list \<Rightarrow> int" where
  "py_max (x # xs) = fold max xs x"

text \<open>\<^verbatim>\<open>s.startswith(p)\<close>.\<close>

definition startswith :: "string \<Rightarrow> string \<Rightarrow> bool" where
  "startswith s p = (take (length p) s = p)"

text \<open>
  \<^verbatim>\<open>s.split(sep, maxsplit)\<close> for a separator of one character: \<open>Some n\<close> splits at the
  first \<open>n\<close> separators, \<open>None\<close> (no \<^verbatim>\<open>maxsplit\<close>) at all of them. \<open>cur\<close> is the piece
  read so far.
\<close>

fun split_from :: "char \<Rightarrow> nat option \<Rightarrow> string \<Rightarrow> string \<Rightarrow> string list" where
  "split_from sep maxsplit cur [] = [cur]"
| "split_from sep maxsplit cur (c # cs) =
     (if c = sep \<and> maxsplit \<noteq> Some 0
      then cur # split_from sep (map_option (\<lambda>n. n - 1) maxsplit) [] cs
      else split_from sep maxsplit (cur @ [c]) cs)"

definition py_split :: "char \<Rightarrow> nat option \<Rightarrow> string \<Rightarrow> string list" where
  "py_split sep maxsplit s = split_from sep maxsplit [] s"

text \<open>
  \<^verbatim>\<open>int(s)\<close> of a string, base 10: white space is stripped at both ends (for code
  points below 256: TAB, LF, VT, FF, CR, space, NEL and NBSP), then an optional sign,
  then decimal digits, where one underscore may stand between two digits. Anything
  else is a ValueError. So is a string of more than 4300 digits, underscores not
  counted: the limit of CPython 3.11 (\<^verbatim>\<open>sys.get_int_max_str_digits()\<close>), at its default.
\<close>

definition max_str_digits :: nat where
  "max_str_digits = 4300"

definition is_space :: "char \<Rightarrow> bool" where
  "is_space c = (of_char c \<in> {9, 10, 11, 12, 13, 32, 133, 160 :: nat})"

definition is_digit :: "char \<Rightarrow> bool" where
  "is_digit c = (48 \<le> (of_char c :: nat) \<and> (of_char c :: nat) \<le> 57)"

definition digit_value :: "char \<Rightarrow> int" where
  "digit_value c = int (of_char c) - 48"

fun parse_digits :: "int \<Rightarrow> string \<Rightarrow> int option" where
  "parse_digits acc [] = Some acc"
| "parse_digits acc [c] = (if is_digit c then Some (acc * 10 + digit_value c) else None)"
| "parse_digits acc (c # d # ds) =
     (if is_digit c then parse_digits (acc * 10 + digit_value c) (d # ds)
      else if c = CHR ''_'' \<and> is_digit d then parse_digits (acc * 10 + digit_value d) ds
      else None)"

definition parse_unsigned :: "string \<Rightarrow> int option" where
  "parse_unsigned s =
     (if max_str_digits < length (filter is_digit s) then None
      else case s of
             [] \<Rightarrow> None
           | c # cs \<Rightarrow> if is_digit c then parse_digits (digit_value c) cs else None)"

definition strip :: "string \<Rightarrow> string" where
  "strip s = rev (dropWhile is_space (rev (dropWhile is_space s)))"

definition py_int :: "string \<Rightarrow> py_error + int" where
  "py_int s =
     (let t = strip s;
          r = (case t of
                 [] \<Rightarrow> None
               | c # cs \<Rightarrow>
                   if c = CHR ''-'' then map_option uminus (parse_unsigned cs)
                   else if c = CHR ''+'' then parse_unsigned cs
                   else parse_unsigned t)
      in case r of None \<Rightarrow> Inl ValueError | Some n \<Rightarrow> Inr n)"

text \<open>\<^verbatim>\<open>str(n)\<close> of an integer: its decimal digits, with \<^verbatim>\<open>-\<close> in front when negative.\<close>

definition digit_char :: "nat \<Rightarrow> char" where
  "digit_char n = ''0123456789'' ! (n mod 10)"

fun str_nat :: "nat \<Rightarrow> string" where
  "str_nat n =
     (if n < 10 then [digit_char n]
      else str_nat (n div 10) @ [digit_char n])"

declare str_nat.simps [simp del]

definition str_int :: "int \<Rightarrow> string" where
  "str_int i = (if i < 0 then CHR ''-'' # str_nat (nat (- i)) else str_nat (nat i))"

text \<open>
  The \<^verbatim>\<open>%\<close> formats of the listing: \<^verbatim>\<open>"%Ns" % s\<close> pads on the left to width \<open>N\<close>,
  \<^verbatim>\<open>"%-Ns" % s\<close> on the right, and neither shortens a longer string. \<^verbatim>\<open>"%Nd" % i\<close> is
  \<^verbatim>\<open>"%Ns" % str(i)\<close>. \<^verbatim>\<open>n * '-'\<close> is \<open>replicate\<close>, empty for \<open>n \<le> 0\<close>.
\<close>

definition rjust :: "int \<Rightarrow> string \<Rightarrow> string" where
  "rjust w s = replicate (nat w - length s) CHR '' '' @ s"

definition ljust :: "int \<Rightarrow> string \<Rightarrow> string" where
  "ljust w s = s @ replicate (nat w - length s) CHR '' ''"

text \<open>
  \<^verbatim>\<open>base64.b64encode\<close>: three bytes become four characters of the standard alphabet;
  a last group of one or two bytes is padded with \<^verbatim>\<open>=\<close>.
\<close>

definition b64_alphabet :: string where
  "b64_alphabet = ''ABCDEFGHIJKLMNOPQRSTUVWXYZabcdefghijklmnopqrstuvwxyz0123456789+/''"

definition b64_char :: "nat \<Rightarrow> char" where
  "b64_char n = b64_alphabet ! (n mod 64)"

fun b64encode :: "string \<Rightarrow> string" where
  "b64encode [] = []"
| "b64encode [a] =
     (let n = of_char a * 65536
      in [b64_char (n div 262144), b64_char (n div 4096), CHR ''='', CHR ''=''])"
| "b64encode [a, b] =
     (let n = of_char a * 65536 + of_char b * 256
      in [b64_char (n div 262144), b64_char (n div 4096), b64_char (n div 64), CHR ''=''])"
| "b64encode (a # b # c # rest) =
     (let n = of_char a * 65536 + of_char b * 256 + of_char c
      in [b64_char (n div 262144), b64_char (n div 4096), b64_char (n div 64), b64_char n]
         @ b64encode rest)"

section \<open>Python's floating point numbers\<close>

text \<open>
  A Python \<^verbatim>\<open>float\<close> is an IEEE 754 binary64 number. \<open>Float m e\<close> is the finite
  number \<open>m \<sqdot> 2\<^sup>e\<close>, \<open>Inf neg\<close> an infinity (negative when \<open>neg\<close>); the sign of a zero
  is not kept, no operation below depends on it.

  \<open>round_to_double neg a d\<close> is the binary64 number nearest to the fraction \<open>a / d\<close>
  (negated when \<open>neg\<close>), ties to even: with \<open>2\<^sup>k \<le> a / d < 2\<^sup>k\<^sup>+\<^sup>1\<close> the result is a
  multiple of \<open>2\<^sup>e\<close> for \<open>e = k - 52\<close> (53 significant bits), or for \<open>e = - 1074\<close> in the
  subnormal range; a result of \<open>2\<^sup>1\<^sup>0\<^sup>2\<^sup>4\<close> or more is an infinity.
\<close>

datatype py_float = Float int int | Inf bool | NaN

fun bit_length :: "nat \<Rightarrow> nat" where
  "bit_length n = (if n = 0 then 0 else Suc (bit_length (n div 2)))"

declare bit_length.simps [simp del]

definition floor_log2 :: "nat \<Rightarrow> nat \<Rightarrow> int" where
  "floor_log2 a d =
     (let k = int (bit_length a) - int (bit_length d)
      in if (0 \<le> k \<and> d * 2 ^ nat k \<le> a) \<or> (k < 0 \<and> d \<le> a * 2 ^ nat (- k))
         then k else k - 1)"

definition round_half_even :: "nat \<Rightarrow> nat \<Rightarrow> nat" where
  "round_half_even n d =
     (let q = n div d; r = n mod d
      in if 2 * r < d then q
         else if d < 2 * r then q + 1
         else if even q then q else q + 1)"

definition round_to_double :: "bool \<Rightarrow> nat \<Rightarrow> nat \<Rightarrow> py_float" where
  "round_to_double neg a d =
     (if a = 0 then Float 0 0
      else
        let e = max (floor_log2 a d - 52) (- 1074);
            m = (if 0 \<le> e then round_half_even a (d * 2 ^ nat e)
                 else round_half_even (a * 2 ^ nat (- e)) d)
        in if 0 \<le> e \<and> 2 ^ 1024 \<le> m * 2 ^ nat e then Inf neg
           else Float (if neg then - int m else int m) e)"

text \<open>
  \<^verbatim>\<open>a / b\<close> of two integers: the quotient correctly rounded; ZeroDivisionError for
  \<open>b = 0\<close>, OverflowError when the quotient is too large for a float.
\<close>

definition int_truediv :: "int \<Rightarrow> int \<Rightarrow> py_error + py_float" where
  "int_truediv a b =
     (if b = 0 then Inl ZeroDivisionError
      else case round_to_double ((a < 0) \<noteq> (b < 0)) (nat \<bar>a\<bar>) (nat \<bar>b\<bar>) of
             Float m e \<Rightarrow> Inr (Float m e)
           | _ \<Rightarrow> Inl OverflowError)"

text \<open>\<^verbatim>\<open>x * y\<close> of two floats: the exact product, rounded; no exception.\<close>

fun float_mul :: "py_float \<Rightarrow> py_float \<Rightarrow> py_float" where
  "float_mul (Float m1 e1) (Float m2 e2) =
     (let m = m1 * m2; e = e1 + e2
      in if 0 \<le> e then round_to_double (m < 0) (nat \<bar>m\<bar> * 2 ^ nat e) 1
         else round_to_double (m < 0) (nat \<bar>m\<bar>) (2 ^ nat (- e)))"
| "float_mul (Float m e) (Inf neg) = (if m = 0 then NaN else Inf ((m < 0) \<noteq> neg))"
| "float_mul (Inf neg) (Float m e) = (if m = 0 then NaN else Inf ((m < 0) \<noteq> neg))"
| "float_mul (Inf neg1) (Inf neg2) = Inf (neg1 \<noteq> neg2)"
| "float_mul NaN y = NaN"
| "float_mul x NaN = NaN"

text \<open>\<^verbatim>\<open>math.ceil(x)\<close>: OverflowError for an infinity, ValueError for a NaN.\<close>

fun math_ceil :: "py_float \<Rightarrow> py_error + int" where
  "math_ceil (Float m e) =
     Inr (if 0 \<le> e then m * 2 ^ nat e else - ((- m) div 2 ^ nat (- e)))"
| "math_ceil (Inf neg) = Inl OverflowError"
| "math_ceil NaN = Inl ValueError"

text \<open>The literal \<^verbatim>\<open>1.77\<close>: the float nearest to 177/100.\<close>

definition float_1_77 :: py_float where
  "float_1_77 = round_to_double False 177 100"

text \<open>\<^verbatim>\<open>math.ceil((height_in_pixels / height_in_cells) * 1.77)\<close>, line 231.\<close>

definition compute_icon_size :: "int \<Rightarrow> int \<Rightarrow> py_error + int" where
  "compute_icon_size height_in_pixels height_in_cells =
     (case int_truediv height_in_pixels height_in_cells of
        Inl e \<Rightarrow> Inl e
      | Inr q \<Rightarrow> math_ceil (float_mul q float_1_77))"

section \<open>The terminal\<close>

text \<open>
  The terminal as the negotiation sees it: the attributes of the device
  (\<^verbatim>\<open>termios.tcgetattr\<close> returns them as the list \<^verbatim>\<open>[iflag, oflag, cflag, lflag, ispeed,
  ospeed, cc]\<close>), what standard input will deliver, and what has been written to
  standard output. A read of one character either delivers it or fails with an
  OSError. When nothing is left to deliver no further character ever arrives: the
  read blocks for ever, or, at the end of the stream, \<^verbatim>\<open>read(1)\<close> returns the empty
  string at every call. The calls of \<^verbatim>\<open>termios\<close> and the writes are taken to succeed.
\<close>

record termios_attrs =
  iflag :: int
  oflag :: int
  cflag :: int
  lflag :: int
  ispeed :: int
  ospeed :: int
  cc :: "int list"

datatype in_event = Ch char | ReadError

record terminal =
  tty_attrs :: termios_attrs
  stdin :: "in_event list"
  stdout :: string

text \<open>
  A statement that runs on the terminal returns a value or raises, and leaves a new
  terminal; \<open>None\<close> when it never returns.
\<close>

type_synonym 'a io = "terminal \<Rightarrow> ((py_error + 'a) \<times> terminal) option"

definition io_return :: "'a \<Rightarrow> 'a io" where
  "io_return x = (\<lambda>t. Some (Inr x, t))"

definition io_bind :: "'a io \<Rightarrow> ('a \<Rightarrow> 'b io) \<Rightarrow> 'b io" where
  "io_bind m f =
     (\<lambda>t. case m t of
            None \<Rightarrow> None
          | Some (Inl e, t') \<Rightarrow> Some (Inl e, t')
          | Some (Inr x, t') \<Rightarrow> f x t')"

text \<open>A computation without effects, which may raise.\<close>

definition io_lift :: "py_error + 'a \<Rightarrow> 'a io" where
  "io_lift r = (\<lambda>t. Some (r, t))"

text \<open>\<^verbatim>\<open>try: body finally: cleanup\<close>, for a cleanup that may itself raise.\<close>

definition try_finally :: "'a io \<Rightarrow> unit io \<Rightarrow> 'a io" where
  "try_finally body cleanup =
     (\<lambda>t. case body t of
            None \<Rightarrow> None
          | Some (r, t') \<Rightarrow>
              (case cleanup t' of
                 None \<Rightarrow> None
               | Some (Inl e, t'') \<Rightarrow> Some (Inl e, t'')
               | Some (Inr u, t'') \<Rightarrow> Some (r, t'')))"

text \<open>\<^verbatim>\<open>sys.stdout.write(s)\<close> (each is followed by a flush before the next read).\<close>

definition stdout_write :: "string \<Rightarrow> unit io" where
  "stdout_write s = (\<lambda>t. Some (Inr (), t\<lparr>stdout := stdout t @ s\<rparr>))"

text \<open>\<^verbatim>\<open>termios.tcsetattr(fd, termios.TCSANOW, attributes)\<close>.\<close>

definition tcsetattr :: "termios_attrs \<Rightarrow> unit io" where
  "tcsetattr attributes = (\<lambda>t. Some (Inr (), t\<lparr>tty_attrs := attributes\<rparr>))"

text \<open>
  \<^verbatim>\<open>tty.setraw(fd)\<close> belongs to the Python library, and what it changes depends on the
  version of Python: it is the parameter \<open>setraw\<close>, the function from the attributes
  of the terminal to the raw ones.
\<close>

definition tty_setraw :: "(termios_attrs \<Rightarrow> termios_attrs) \<Rightarrow> unit io" where
  "tty_setraw setraw = (\<lambda>t. Some (Inr (), t\<lparr>tty_attrs := setraw (tty_attrs t)\<rparr>))"

text \<open>
  Lines 208-210: \<^verbatim>\<open>new_attributes[3] & ~termios.ICANON & ~termios.ECHO\<close>. The code runs
  on Darwin only (line 201), where \<^verbatim>\<open>ICANON\<close> is \<^verbatim>\<open>0x100\<close> and \<^verbatim>\<open>ECHO\<close> is \<^verbatim>\<open>0x8\<close>.
\<close>

definition ICANON :: int where
  "ICANON = 0x100"

definition ECHO :: int where
  "ECHO = 0x8"

definition clear_icanon_echo :: "unit io" where
  "clear_icanon_echo =
     (\<lambda>t. let new_attributes = tty_attrs t
          in tcsetattr (new_attributes\<lparr>lflag := lflag new_attributes AND NOT ICANON AND NOT ECHO\<rparr>) t)"

text \<open>
  \<^verbatim>\<open>_read_terminal_response\<close>, lines 239-248. \<open>stdin_read1\<close> is \<^verbatim>\<open>sys.stdin.read(1)\<close>: the
  empty string at the end of the stream. \<open>read_loop\<close> is the \<^verbatim>\<open>while True\<close> loop, by
  recursion on what standard input delivers: once that is used up the loop never
  ends.
\<close>

definition stdin_read1 :: "string io" where
  "stdin_read1 =
     (\<lambda>t. case stdin t of
            [] \<Rightarrow> Some (Inr [], t)
          | Ch c # rest \<Rightarrow> Some (Inr [c], t\<lparr>stdin := rest\<rparr>)
          | ReadError # rest \<Rightarrow> Some (Inl OSError, t\<lparr>stdin := rest\<rparr>))"

fun read_loop :: "char \<Rightarrow> string \<Rightarrow> in_event list \<Rightarrow> ((py_error + string) \<times> in_event list) option" where
  "read_loop terminator result [] = None"
| "read_loop terminator result (ReadError # rest) = Some (Inl OSError, rest)"
| "read_loop terminator result (Ch ch # rest) =
     (if ch = terminator then Some (Inr result, rest)
      else read_loop terminator (result @ [ch]) rest)"

definition read_terminal_response :: "char \<Rightarrow> string io" where
  "read_terminal_response terminator =
     io_bind stdin_read1 (\<lambda>_.
     io_bind stdin_read1 (\<lambda>_.
     (\<lambda>t. case read_loop terminator [] (stdin t) of
            None \<Rightarrow> None
          | Some (r, rest) \<Rightarrow> Some (r, t\<lparr>stdin := rest\<rparr>))))"

section \<open>Terminal negotiation\<close>

datatype terminal_type = Simple | Iterm2

text \<open>
  What \<^verbatim>\<open>_detect_terminal\<close> reads of the application: \<^verbatim>\<open>self._have_terminal\<close>,
  \<^verbatim>\<open>self._plain_terminal\<close> and \<^verbatim>\<open>platform.system()\<close>.
\<close>

record environment =
  have_terminal :: bool
  plain_terminal :: bool
  platform_system :: string

text \<open>The escape sequences written: \<^verbatim>\<open>"\033[1337n"\<close>, \<^verbatim>\<open>"\033[5n"\<close>, \<^verbatim>\<open>"\033[14t"\<close>, \<^verbatim>\<open>"\033[18t"\<close>.\<close>

definition ESC :: char where
  "ESC = CHR 0x1B"

text \<open>
  Lines 223-233, the geometry probes: the height in pixels, then the height in
  cells, each the field of index 1 of a response ended by \<^verbatim>\<open>t\<close>.
\<close>

definition probe_geometry :: "(terminal_type \<times> int) io" where
  "probe_geometry =
     io_bind (stdout_write (ESC # ''[14t'')) (\<lambda>_.
     io_bind (read_terminal_response CHR ''t'') (\<lambda>r1.
     io_bind (io_lift (py_index (py_split CHR '';'' None r1) 1)) (\<lambda>f1.
     io_bind (io_lift (py_int f1)) (\<lambda>height_in_pixels.
     io_bind (stdout_write (ESC # ''[18t'')) (\<lambda>_.
     io_bind (read_terminal_response CHR ''t'') (\<lambda>r2.
     io_bind (io_lift (py_index (py_split CHR '';'' None r2) 1)) (\<lambda>f2.
     io_bind (io_lift (py_int f2)) (\<lambda>height_in_cells.
     io_bind (io_lift (compute_icon_size height_in_pixels height_in_cells)) (\<lambda>icon_size.
     io_return (Iterm2, icon_size))))))))))"

text \<open>
  Lines 207-235, the body of the \<^verbatim>\<open>try\<close>. \<^verbatim>\<open>icon_size\<close> is still 0 wherever
  \<^verbatim>\<open>("simple", icon_size)\<close> is returned. In \<^verbatim>\<open>len(version_tokens) >= 2 and
  int(version_tokens[0]) >= 3\<close> the conversion runs only when the length is at least 2.
\<close>

definition negotiate :: "(termios_attrs \<Rightarrow> termios_attrs) \<Rightarrow> (terminal_type \<times> int) io" where
  "negotiate setraw =
     io_bind (tty_setraw setraw) (\<lambda>_.
     io_bind clear_icanon_echo (\<lambda>_.
     io_bind (stdout_write (ESC # ''[1337n'')) (\<lambda>_.
     io_bind (stdout_write (ESC # ''[5n'')) (\<lambda>_.
     io_bind (read_terminal_response CHR ''n'') (\<lambda>response.
       if response \<noteq> ''0'' \<and> response \<noteq> ''3'' then
         io_bind (read_terminal_response CHR ''n'') (\<lambda>_.
           if startswith response ''ITERM2 '' then
             io_bind (io_lift (py_index (py_split CHR '' '' (Some 1) response) 1)) (\<lambda>version.
               let version_tokens = py_split CHR ''.'' (Some 2) version
               in if 2 \<le> length version_tokens then
                    io_bind (io_lift (py_index version_tokens 0)) (\<lambda>major.
                    io_bind (io_lift (py_int major)) (\<lambda>major_version.
                      if 3 \<le> major_version then probe_geometry
                      else io_return (Simple, 0)))
                  else io_return (Simple, 0))
           else io_return (Simple, 0))
       else io_return (Simple, 0))))))"

text \<open>
  \<^verbatim>\<open>_detect_terminal\<close>, lines 198-237: the early return, then the attributes are
  saved and the body runs under \<^verbatim>\<open>finally: termios.tcsetattr(fd, termios.TCSANOW,
  old_attributes)\<close>.
\<close>

definition detect_terminal ::
  "(termios_attrs \<Rightarrow> termios_attrs) \<Rightarrow> environment \<Rightarrow> (terminal_type \<times> int) io" where
  "detect_terminal setraw env =
     (\<lambda>t. if \<not> have_terminal env \<or> plain_terminal env \<or> platform_system env \<noteq> ''Darwin''
          then io_return (Simple, 0) t
          else let old_attributes = tty_attrs t
               in try_finally (negotiate setraw) (tcsetattr old_attributes) t)"

section \<open>The listings\<close>

text \<open>
  The application object as the listings read it: the options (lines 59-62), the
  result of the terminal negotiation (line 63) and the device. The scope hint is
  \<^verbatim>\<open>"minimal"\<close> or \<^verbatim>\<open>"full"\<close>, the output format \<^verbatim>\<open>"text"\<close> or \<^verbatim>\<open>"json"\<close>. An enumeration of
  the device returns the records or raises; \<open>Inl\<close> holds the text of the exception.
\<close>

datatype scope = Minimal | Full

datatype output_format = Text | Json

record device =
  enumerate_processes :: "scope \<Rightarrow> string + process list"
  enumerate_applications :: "scope \<Rightarrow> string + application list"

record ps_application =
  list_only_applications :: bool
  include_all_applications :: bool
  output_format :: output_format
  exclude_icons :: bool
  terminal_type :: terminal_type
  icon_size :: int
  device :: "device option"

text \<open>
  \<^verbatim>\<open>_print\<close>, \<^verbatim>\<open>_log\<close>, \<^verbatim>\<open>_update_status\<close> and \<^verbatim>\<open>_exit\<close> are methods of \<^verbatim>\<open>ConsoleApplication\<close>,
  which is not among the sources. A listing is modelled by the calls it makes to
  them, in order. \<^verbatim>\<open>_exit\<close> returns to its caller (line 86 returns after it). For
  \<^verbatim>\<open>self._print(json.dumps(result, sort_keys=False, indent=2))\<close> the effect holds the
  value \<^verbatim>\<open>result\<close>: a list of dictionaries, whose keys \<^verbatim>\<open>json.dumps\<close> writes in the
  order of insertion.
\<close>

datatype json = JNull | JInt int | JString string | JArray "json list" | JObject "(string \<times> json) list"

datatype effect =
    Print string
  | PrintJson json
  | Log string string
  | UpdateStatus string
  | Exit int

text \<open>\<^verbatim>\<open>compute_icon_width\<close>, lines 280-284; \<^verbatim>\<open>parameters.get("icons", [])\<close>.\<close>

fun first_png_width :: "icon list \<Rightarrow> int" where
  "first_png_width [] = 0"
| "first_png_width (icon # icons) =
     (if icon_format icon = ''png'' then 4 else first_png_width icons)"

definition compute_icon_width :: "'a process_scheme \<Rightarrow> int" where
  "compute_icon_width item =
     first_png_width (case parameters item ''icons'' of None \<Rightarrow> [] | Some icons \<Rightarrow> icons)"

text \<open>\<^verbatim>\<open>_render_icon\<close>, lines 193-196; \<^verbatim>\<open>\007\<close> is BEL.\<close>

definition BEL :: char where
  "BEL = CHR 0x07"

definition render_icon :: "int \<Rightarrow> icon \<Rightarrow> string" where
  "render_icon size_px icon =
     ESC # '']1337;File=inline=1;width='' @ str_int size_px @ ''px;height='' @ str_int size_px
       @ ''px;:'' @ b64encode (icon_image icon) @ [BEL]"

text \<open>
  Lines 102-110 and 165-173, the name cell of a row. \<open>name_width\<close> is
  \<^verbatim>\<open>name_column_width - icon_width\<close>, the width in \<^verbatim>\<open>name_format\<close>. \<^verbatim>\<open>icons[0]\<close> raises
  IndexError on an empty list.
\<close>

definition name_cell :: "int \<Rightarrow> int \<Rightarrow> int \<Rightarrow> 'a process_scheme \<Rightarrow> py_error + string" where
  "name_cell size_px icon_width name_width item =
     (if icon_width \<noteq> 0 then
        (case parameters item ''icons'' of
           Some icons \<Rightarrow>
             (case py_index icons 0 of
                Inl e \<Rightarrow> Inl e
              | Inr icon \<Rightarrow> Inr (render_icon size_px icon @ '' '' @ ljust name_width (name item)))
         | None \<Rightarrow> Inr (''   '' @ '' '' @ ljust name_width (name item)))
      else Inr (ljust name_width (name item)))"

text \<open>
  The \<^verbatim>\<open>for\<close> loops that print one line for each record: the lines printed, and the
  exception that ended the loop if one did.
\<close>

fun print_rows :: "('a \<Rightarrow> py_error + string) \<Rightarrow> 'a list \<Rightarrow> effect list \<times> py_error option" where
  "print_rows row [] = ([], None)"
| "print_rows row (x # xs) =
     (case row x of
        Inl e \<Rightarrow> ([], Some e)
      | Inr line \<Rightarrow> (case print_rows row xs of (effects, r) \<Rightarrow> (Print line # effects, r)))"

text \<open>Statements in sequence: the second runs unless the first raised.\<close>

definition and_then :: "effect list \<times> py_error option \<Rightarrow> effect list \<Rightarrow> effect list \<times> py_error option" where
  "and_then r effects = (case r of (es, None) \<Rightarrow> (es @ effects, None) | (es, Some e) \<Rightarrow> (es, Some e))"

text \<open>The icon column width of a listing: \<^verbatim>\<open>max(map(compute_icon_width, records))\<close>.\<close>

definition listing_icon_width :: "'a process_scheme list \<Rightarrow> int" where
  "listing_icon_width records = py_max (map compute_icon_width records)"

text \<open>Lines 90-112: the table of processes, for a non-empty list.\<close>

definition process_row :: "int \<Rightarrow> int \<Rightarrow> int \<Rightarrow> int \<Rightarrow> process \<Rightarrow> py_error + string" where
  "process_row size_px pid_column_width icon_width name_width process =
     (case name_cell size_px icon_width name_width process of
        Inl e \<Rightarrow> Inl e
      | Inr name_text \<Rightarrow> Inr (rjust pid_column_width (str_int (pid process)) @ ''  '' @ name_text))"

definition processes_table :: "int \<Rightarrow> process list \<Rightarrow> effect list \<times> py_error option" where
  "processes_table size_px processes =
     (let pid_column_width = py_max (map (\<lambda>p. int (length (str_int (pid p)))) processes);
          icon_width = listing_icon_width processes;
          name_column_width = icon_width + py_max (map (\<lambda>p. int (length (name p))) processes);
          rows = print_rows (process_row size_px pid_column_width icon_width (name_column_width - icon_width))
                   (sorted_cmp compare_processes processes)
      in (Print (rjust pid_column_width ''PID'' @ ''  '' @ ''Name'')
          # Print (replicate (nat pid_column_width) CHR ''-'' @ ''  ''
                   @ replicate (nat name_column_width) CHR ''-'')
          # fst rows, snd rows))"

text \<open>
  \<^verbatim>\<open>_list_processes\<close>, lines 74-121. \<open>try_enumerate_processes\<close> is the body of the
  \<^verbatim>\<open>try\<close>, lines 81-82: \<^verbatim>\<open>assert self._device is not None\<close> stands inside it, and the text
  of an AssertionError without a message is empty.
\<close>

definition processes_scope :: "ps_application \<Rightarrow> scope" where
  "processes_scope self =
     (if \<not> exclude_icons self \<and> output_format self = Text \<and> terminal_type self = Iterm2
      then Full else Minimal)"

definition try_enumerate_processes :: "ps_application \<Rightarrow> string + process list" where
  "try_enumerate_processes self =
     (case device self of
        None \<Rightarrow> Inl []
      | Some d \<Rightarrow> enumerate_processes d (processes_scope self))"

definition list_processes :: "ps_application \<Rightarrow> effect list \<times> py_error option" where
  "list_processes self =
     (case try_enumerate_processes self of
        Inl e \<Rightarrow> ([UpdateStatus (''Failed to enumerate processes: '' @ e), Exit 1], None)
      | Inr processes \<Rightarrow>
          and_then
            (case output_format self of
               Text \<Rightarrow>
                 if 0 < length processes then processes_table (icon_size self) processes
                 else ([Log ''error'' ''No running processes.''], None)
             | Json \<Rightarrow>
                 ([PrintJson (JArray (map (\<lambda>process. JObject [(''pid'', JInt (pid process)),
                                                                (''name'', JString (name process))])
                                        (sorted_cmp compare_processes processes)))], None))
            [Exit 0])"

text \<open>Lines 142-178: the table of applications, for a non-empty list.\<close>

definition application_row :: "int \<Rightarrow> int \<Rightarrow> int \<Rightarrow> int \<Rightarrow> int \<Rightarrow> application \<Rightarrow> py_error + string" where
  "application_row size_px pid_column_width icon_width name_width identifier_column_width app =
     (case name_cell size_px icon_width name_width app of
        Inl e \<Rightarrow> Inl e
      | Inr name_text \<Rightarrow>
          Inr (rjust pid_column_width (if pid app = 0 then ''-'' else str_int (pid app))
               @ ''  '' @ name_text @ ''  '' @ ljust identifier_column_width (app_identifier app)))"

definition applications_table :: "int \<Rightarrow> application list \<Rightarrow> effect list \<times> py_error option" where
  "applications_table size_px applications =
     (let pid_column_width = py_max (map (\<lambda>app. int (length (str_int (pid app)))) applications);
          icon_width = listing_icon_width applications;
          name_column_width = icon_width + py_max (map (\<lambda>app. int (length (name app))) applications);
          identifier_column_width = py_max (map (\<lambda>app. int (length (app_identifier app))) applications);
          rows = print_rows (application_row size_px pid_column_width icon_width
                               (name_column_width - icon_width) identifier_column_width)
                   (sorted_cmp compare_applications applications)
      in (Print (rjust pid_column_width ''PID'' @ ''  '' @ ljust name_column_width ''Name'' @ ''  ''
                 @ ljust identifier_column_width ''Identifier'')
          # Print (replicate (nat pid_column_width) CHR ''-'' @ ''  ''
                   @ replicate (nat name_column_width) CHR ''-'' @ ''  ''
                   @ replicate (nat identifier_column_width) CHR ''-'')
          # fst rows, snd rows))"

text \<open>
  \<^verbatim>\<open>_list_applications\<close>, lines 123-191. The scope does not read \<^verbatim>\<open>self._exclude_icons\<close>
  (line 124). \<^verbatim>\<open>app.pid or None\<close> is \<^verbatim>\<open>None\<close> for the pid 0.
\<close>

definition applications_scope :: "ps_application \<Rightarrow> scope" where
  "applications_scope self =
     (if output_format self = Text \<and> terminal_type self = Iterm2 then Full else Minimal)"

definition try_enumerate_applications :: "ps_application \<Rightarrow> string + application list" where
  "try_enumerate_applications self =
     (case device self of
        None \<Rightarrow> Inl []
      | Some d \<Rightarrow> enumerate_applications d (applications_scope self))"

definition list_applications :: "ps_application \<Rightarrow> effect list \<times> py_error option" where
  "list_applications self =
     (case try_enumerate_applications self of
        Inl e \<Rightarrow> ([UpdateStatus (''Failed to enumerate applications: '' @ e), Exit 1], None)
      | Inr enumerated \<Rightarrow>
          (let applications = (if \<not> include_all_applications self
                               then filter (\<lambda>app. pid app \<noteq> 0) enumerated else enumerated)
           in and_then
                (case output_format self of
                   Text \<Rightarrow>
                     if 0 < length applications then applications_table (icon_size self) applications
                     else if include_all_applications self
                          then ([Log ''error'' ''No installed applications.''], None)
                          else ([Log ''error'' ''No running applications.''], None)
                 | Json \<Rightarrow>
                     ([PrintJson (JArray
                         (if 0 < length applications
                          then map (\<lambda>app. JObject [(''pid'', if pid app = 0 then JNull else JInt (pid app)),
                                                     (''name'', JString (name app)),
                                                     (''identifier'', JString (app_identifier app))])
                                 (sorted_cmp compare_applications applications)
                          else []))], None))
                [Exit 0]))"

text \<open>\<^verbatim>\<open>_start\<close>, lines 68-72.\<close>

definition start :: "ps_application \<Rightarrow> effect list \<times> py_error option" where
  "start self = (if list_only_applications self then list_applications self else list_processes self)"

section \<open>Replies of the terminal\<close>

text \<open>
  What the statements below are stated with, and no part of the program. A reply of
  the terminal reaches standard input as two leading characters (\<^verbatim>\<open>ESC [\<close> in the
  protocol; \<^verbatim>\<open>_read_terminal_response\<close> drops them unread), a payload, and the
  terminating character.
\<close>

definition reply :: "string \<Rightarrow> string \<Rightarrow> char \<Rightarrow> in_event list" where
  "reply lead payload terminator = map Ch (lead @ payload @ [terminator])"

definition CSI :: string where
  "CSI = [ESC, CHR ''['']"

text \<open>
  For the examples: an instance of \<open>setraw\<close>, which clears ECHO, ICANON, IEXTEN and
  ISIG in \<open>lflag\<close> and OPOST in \<open>oflag\<close>; the attributes of a terminal in its usual mode;
  and an environment with a terminal on Darwin.
\<close>

definition example_setraw :: "termios_attrs \<Rightarrow> termios_attrs" where
  "example_setraw a = a\<lparr>oflag := oflag a AND NOT 0x1, lflag := lflag a AND NOT 0x588\<rparr>"

definition cooked_attrs :: termios_attrs where
  "cooked_attrs =
     \<lparr>iflag = 0x6B02, oflag = 0x3, cflag = 0x4B00, lflag = 0x5CF,
      ispeed = 9600, ospeed = 9600, cc = []\<rparr>"

definition darwin_tty :: environment where
  "darwin_tty = \<lparr>have_terminal = True, plain_terminal = False, platform_system = ''Darwin''\<rparr>"

section \<open>The application comparator\<close>

text \<open>
  Claim C4. A running application (\<open>pid \<noteq> 0\<close>) compares strictly before an
  application that is not running (\<open>pid = 0\<close>), whatever the two names are, and two
  applications of the same running state compare by name, ascending.
\<close>

theorem compare_applications_running_first:
  "(pid a \<noteq> 0 \<and> pid b = 0 \<longrightarrow>
      compare_applications a b = - 1 \<and> compare_applications b a = 1) \<and>
   ((pid a \<noteq> 0) = (pid b \<noteq> 0) \<longrightarrow>
      (name a < name b \<longrightarrow> compare_applications a b = - 1 \<and> compare_applications b a = 1) \<and>
      (name a = name b \<longrightarrow> compare_applications a b = 0))"
  by (auto simp: compare_applications_def Let_def)

theorem compare_applications_running_first_witness:
  "pid \<lparr>pid = 42, name = ''Zed'', parameters = Map.empty, app_identifier = ''com.zed''\<rparr> \<noteq> 0 \<and>
   pid \<lparr>pid = 0, name = ''Abc'', parameters = Map.empty, app_identifier = ''com.abc''\<rparr> = 0 \<and>
   compare_applications
     \<lparr>pid = 42, name = ''Zed'', parameters = Map.empty, app_identifier = ''com.zed''\<rparr>
     \<lparr>pid = 0, name = ''Abc'', parameters = Map.empty, app_identifier = ''com.abc''\<rparr> = - 1 \<and>
   compare_applications
     \<lparr>pid = 0, name = ''Abc'', parameters = Map.empty, app_identifier = ''com.abc''\<rparr>
     \<lparr>pid = 42, name = ''Zed'', parameters = Map.empty, app_identifier = ''com.zed''\<rparr> = 1 \<and>
   (''Bar'' :: string) < ''Foo'' \<and>
   compare_applications
     \<lparr>pid = 7, name = ''Bar'', parameters = Map.empty, app_identifier = ''com.bar''\<rparr>
     \<lparr>pid = 42, name = ''Foo'', parameters = Map.empty, app_identifier = ''com.foo''\<rparr> = - 1"
  using compare_applications_running_first
    [of "\<lparr>pid = 42, name = ''Zed'', parameters = Map.empty, app_identifier = ''com.zed''\<rparr>"
        "\<lparr>pid = 0, name = ''Abc'', parameters = Map.empty, app_identifier = ''com.abc''\<rparr>"]
    compare_applications_running_first
    [of "\<lparr>pid = 7, name = ''Bar'', parameters = Map.empty, app_identifier = ''com.bar''\<rparr>"
        "\<lparr>pid = 42, name = ''Foo'', parameters = Map.empty, app_identifier = ''com.foo''\<rparr>"]
  by simp

section \<open>The process comparator\<close>

text \<open>The three-way comparison of two names, over any linear order.\<close>

lemma cmp3_le0: "((if (y::'a::linorder) < x then (1::int) else if x < y then - 1 else 0) \<le> 0) = (x \<le> y)"
  by auto

lemma cmp3_eq0: "((if (y::'a::linorder) < x then (1::int) else if x < y then - 1 else 0) = 0) = (x = y)"
  by auto

lemma cmp3_flip: "(if (x::'a::linorder) < y then (1::int) else if y < x then - 1 else 0) =
    - (if y < x then 1 else if x < y then - 1 else 0)"
  by auto

lemma cmp3_less: "(x::'a::linorder) < y \<Longrightarrow> (if y < x then (1::int) else if x < y then - 1 else 0) = - 1"
  by auto

lemma compare_processes_le0:
  "(compare_processes a b \<le> 0) =
     ((parameters a ''icons'' \<noteq> None \<and> parameters b ''icons'' = None) \<or>
      ((parameters a ''icons'' \<noteq> None) = (parameters b ''icons'' \<noteq> None) \<and> name a \<le> name b))"
  unfolding compare_processes_def Let_def
  by (cases "parameters a ''icons''"; cases "parameters b ''icons''") (simp_all add: cmp3_le0)

lemma compare_processes_eq0:
  "(compare_processes a b = 0) =
     ((parameters a ''icons'' \<noteq> None) = (parameters b ''icons'' \<noteq> None) \<and> name a = name b)"
  unfolding compare_processes_def Let_def
  by (cases "parameters a ''icons''"; cases "parameters b ''icons''") (simp_all add: cmp3_eq0)

lemma compare_processes_flip: "compare_processes b a = - compare_processes a b"
proof (cases "(parameters a ''icons'' \<noteq> None) = (parameters b ''icons'' \<noteq> None)")
  case True
  then have "compare_processes b a = (if name b > name a then 1 else if name b < name a then - 1 else 0)"
    and "compare_processes a b = (if name a > name b then 1 else if name a < name b then - 1 else 0)"
    unfolding compare_processes_def Let_def by simp_all
  then show ?thesis
    using cmp3_flip [of "name a" "name b"] by (simp only:)
next
  case False
  then show ?thesis
    unfolding compare_processes_def Let_def by auto
qed

lemma compare_processes_less:
  "(parameters a ''icons'' \<noteq> None) = (parameters b ''icons'' \<noteq> None) \<Longrightarrow> name a < name b \<Longrightarrow>
     compare_processes a b = - 1"
  unfolding compare_processes_def Let_def by (simp add: cmp3_less)

lemma compare_processes_group:
  "parameters a ''icons'' \<noteq> None \<Longrightarrow> parameters b ''icons'' = None \<Longrightarrow> compare_processes a b = - 1"
  unfolding compare_processes_def Let_def by simp

lemma compare_processes_trans:
  "compare_processes a b \<le> 0 \<Longrightarrow> compare_processes b c \<le> 0 \<Longrightarrow> compare_processes a c \<le> 0"
  unfolding compare_processes_le0 by (elim disjE conjE) (simp_all, metis order_trans)

text \<open>
  Claim C3, amended. The process comparator is a total preorder on the key (presence
  of the \<^verbatim>\<open>"icons"\<close> entry, name): a record whose parameters hold an \<^verbatim>\<open>"icons"\<close> entry
  compares strictly before a record whose parameters hold none; two records of the
  same group compare by name, ascending; the result is 0 exactly when the presence of
  the entry and the name both coincide; swapping the arguments negates the result;
  and the order is transitive. The group is decided by the presence of the key, not
  by the number of icon descriptors under it.
\<close>

theorem compare_processes_order:
  "(parameters a ''icons'' \<noteq> None \<and> parameters b ''icons'' = None \<longrightarrow>
      compare_processes a b = - 1 \<and> compare_processes b a = 1) \<and>
   ((parameters a ''icons'' \<noteq> None) = (parameters b ''icons'' \<noteq> None) \<longrightarrow>
      (name a < name b \<longrightarrow> compare_processes a b = - 1 \<and> compare_processes b a = 1) \<and>
      (name a = name b \<longrightarrow> compare_processes a b = 0)) \<and>
   (compare_processes a b = 0 \<longleftrightarrow>
      (parameters a ''icons'' \<noteq> None) = (parameters b ''icons'' \<noteq> None) \<and> name a = name b) \<and>
   compare_processes b a = - compare_processes a b \<and>
   (compare_processes a b \<le> 0 \<and> compare_processes b c \<le> 0 \<longrightarrow> compare_processes a c \<le> 0)"
proof (intro conjI impI)
  show "compare_processes b a = - compare_processes a b"
    by (rule compare_processes_flip)
  show "(compare_processes a b = 0) =
     ((parameters a ''icons'' \<noteq> None) = (parameters b ''icons'' \<noteq> None) \<and> name a = name b)"
    by (rule compare_processes_eq0)
next
  assume "parameters a ''icons'' \<noteq> None \<and> parameters b ''icons'' = None"
  then show "compare_processes a b = - 1" by (simp add: compare_processes_group)
  then show "compare_processes b a = 1" by (simp add: compare_processes_flip [of b a])
next
  assume g: "(parameters a ''icons'' \<noteq> None) = (parameters b ''icons'' \<noteq> None)"
  { assume "name a < name b"
    with g show "compare_processes a b = - 1" by (rule compare_processes_less)
    then show "compare_processes b a = 1" by (simp add: compare_processes_flip [of b a]) }
  { assume "name a = name b"
    with g show "compare_processes a b = 0" by (simp add: compare_processes_eq0) }
next
  assume "compare_processes a b \<le> 0 \<and> compare_processes b c \<le> 0"
  then show "compare_processes a c \<le> 0" using compare_processes_trans by blast
qed

theorem compare_processes_order_witness:
  "compare_processes
     \<lparr>pid = 3, name = ''zsh'', parameters = [''icons'' \<mapsto> [\<lparr>icon_format = ''png'', icon_image = ''x''\<rparr>]]\<rparr>
     \<lparr>pid = 1, name = ''bash'', parameters = Map.empty\<rparr> = - 1 \<and>
   compare_processes
     \<lparr>pid = 1, name = ''bash'', parameters = Map.empty\<rparr>
     \<lparr>pid = 3, name = ''zsh'', parameters = [''icons'' \<mapsto> [\<lparr>icon_format = ''png'', icon_image = ''x''\<rparr>]]\<rparr> = 1 \<and>
   compare_processes
     \<lparr>pid = 1, name = ''bash'', parameters = Map.empty\<rparr>
     \<lparr>pid = 2, name = ''cat'', parameters = Map.empty\<rparr> = - 1 \<and>
   compare_processes
     \<lparr>pid = 3, name = ''zsh'', parameters = [''icons'' \<mapsto> [\<lparr>icon_format = ''png'', icon_image = ''x''\<rparr>]]\<rparr>
     \<lparr>pid = 2, name = ''cat'', parameters = Map.empty\<rparr> \<le> 0"
  using compare_processes_order
    [of "\<lparr>pid = 3, name = ''zsh'', parameters = [''icons'' \<mapsto> [\<lparr>icon_format = ''png'', icon_image = ''x''\<rparr>]]\<rparr>"
        "\<lparr>pid = 1, name = ''bash'', parameters = Map.empty\<rparr>"
        "\<lparr>pid = 2, name = ''cat'', parameters = Map.empty\<rparr>"]
    compare_processes_order
    [of "\<lparr>pid = 1, name = ''bash'', parameters = Map.empty\<rparr>"
        "\<lparr>pid = 2, name = ''cat'', parameters = Map.empty\<rparr>"]
  by simp

text \<open>
  The claim as stated fails for an empty icon list: the first record has an icon
  descriptor, the second has none (its list is empty), and the first is ordered after
  the second, by name, since both hold the key.
\<close>

theorem compare_processes_empty_icons_counterexample:
  "parameters \<lparr>pid = 1, name = ''b'', parameters = [''icons'' \<mapsto> [\<lparr>icon_format = ''png'', icon_image = ''''\<rparr>]]\<rparr> ''icons''
     = Some [\<lparr>icon_format = ''png'', icon_image = ''''\<rparr>] \<and>
   parameters \<lparr>pid = 2, name = ''a'', parameters = [''icons'' \<mapsto> []]\<rparr> ''icons'' = Some [] \<and>
   compare_processes
     \<lparr>pid = 1, name = ''b'', parameters = [''icons'' \<mapsto> [\<lparr>icon_format = ''png'', icon_image = ''''\<rparr>]]\<rparr>
     \<lparr>pid = 2, name = ''a'', parameters = [''icons'' \<mapsto> []]\<rparr> = 1"
  by (simp add: compare_processes_def)

section \<open>The conversion of a string to an integer\<close>

text \<open>A string of more than 4300 digits is refused, leading zeros counted.\<close>

lemma strip_no_space: "\<forall>c \<in> set s. \<not> is_space c \<Longrightarrow> strip s = s"
proof -
  assume a: "\<forall>c \<in> set s. \<not> is_space c"
  then have "dropWhile is_space s = s" by (cases s) simp_all
  moreover from a have "dropWhile is_space (rev s) = rev s" by (cases "rev s") (simp, metis dropWhile.simps(2) list.set_intros(1) set_rev)
  ultimately show ?thesis by (simp add: strip_def)
qed

lemma py_int_too_many_digits:
  assumes "\<forall>c \<in> set s. is_digit c" and "max_str_digits < length s"
  shows "py_int s = Inl ValueError"
proof -
  have d: "filter is_digit s = s" using assms(1) by (simp add: filter_id_conv)
  have "\<forall>c \<in> set s. \<not> is_space c"
    using assms(1) by (auto simp: is_digit_def is_space_def)
  then have st: "strip s = s" by (rule strip_no_space)
  obtain c cs where s: "s = c # cs" using assms(2) by (cases s) simp_all
  have c: "c \<noteq> CHR ''-''" "c \<noteq> CHR ''+''"
    using assms(1) by (auto simp: s is_digit_def)
  have "parse_unsigned s = None"
    using assms(2) by (simp add: parse_unsigned_def d)
  then show ?thesis
    unfolding py_int_def st Let_def using c by (simp add: s)
qed

lemma py_int_digit_limit: "py_int (replicate 4300 CHR ''0'' @ ''2'') = Inl ValueError"
  by (rule py_int_too_many_digits) (auto simp: is_digit_def max_str_digits_def)

section \<open>Reading the replies\<close>

text \<open>A reply is read up to its terminator, and its two leading characters are dropped.\<close>

lemma read_loop_reply:
  "terminator \<notin> set s \<Longrightarrow>
   read_loop terminator acc (map Ch s @ Ch terminator # rest) = Some (Inr (acc @ s), rest)"
  by (induction s arbitrary: acc) auto

text \<open>\<^verbatim>\<open>split\<close>: no separator, the limit reached, and the first separator.\<close>

lemma split_from_no_sep:
  "sep \<notin> set s \<Longrightarrow> split_from sep maxsplit cur s = [cur @ s]"
  by (induction s arbitrary: cur) auto

lemma split_from_limit: "split_from sep (Some 0) cur s = [cur @ s]"
  by (induction s arbitrary: cur) auto

lemma split_from_first:
  "sep \<notin> set a \<Longrightarrow> maxsplit \<noteq> Some 0 \<Longrightarrow>
   split_from sep maxsplit cur (a @ sep # b) = (cur @ a) # split_from sep (map_option (\<lambda>n. n - 1) maxsplit) [] b"
  by (induction a arbitrary: cur) auto

lemma split_from_nonempty: "split_from sep maxsplit cur s \<noteq> []"
  by (induction s arbitrary: cur maxsplit) auto

lemma py_split_dot:
  "CHR ''.'' \<notin> set v \<Longrightarrow> py_split CHR ''.'' (Some 2) v = [v]"
  "CHR ''.'' \<in> set v \<Longrightarrow>
     \<exists>more. py_split CHR ''.'' (Some 2) v = takeWhile (\<lambda>c. c \<noteq> CHR ''.'') v # more \<and> more \<noteq> []"
proof -
  show "CHR ''.'' \<notin> set v \<Longrightarrow> py_split CHR ''.'' (Some 2) v = [v]"
    by (simp add: py_split_def split_from_no_sep)
next
  assume "CHR ''.'' \<in> set v"
  then obtain a b where v: "v = a @ CHR ''.'' # b" and a: "CHR ''.'' \<notin> set a"
    by (meson split_list_first)
  have "takeWhile (\<lambda>c. c \<noteq> CHR ''.'') (a @ CHR ''.'' # b) = a"
    using a by (induction a) auto
  then have tw: "takeWhile (\<lambda>c. c \<noteq> CHR ''.'') v = a"
    by (simp only: v)
  have "py_split CHR ''.'' (Some 2) v = a # split_from CHR ''.'' (Some 1) [] b"
    using split_from_first [OF a, of "Some 2" "[]" b] by (simp add: py_split_def v)
  then show "\<exists>more. py_split CHR ''.'' (Some 2) v = takeWhile (\<lambda>c. c \<noteq> CHR ''.'') v # more \<and> more \<noteq> []"
    using tw split_from_nonempty by auto
qed

lemma startswith_iterm2:
  assumes "startswith response ''ITERM2 ''"
  shows "response = ''ITERM2 '' @ drop 7 response"
proof -
  have "take 7 response = ''ITERM2 ''"
    using assms by (simp add: startswith_def eval_nat_numeral)
  then have "take 7 response @ drop 7 response = ''ITERM2 '' @ drop 7 response"
    by (simp only:)
  then show ?thesis
    by (simp only: append_take_drop_id)
qed

lemma py_split_iterm2: "py_split CHR '' '' (Some 1) (''ITERM2 '' @ v) = [''ITERM2'', v]"
proof -
  have "split_from CHR '' '' (Some 1) [] (''ITERM2'' @ CHR '' '' # v)
      = ([] @ ''ITERM2'') # split_from CHR '' '' (map_option (\<lambda>n. n - 1) (Some 1)) [] v"
    by (rule split_from_first) simp_all
  then show ?thesis
    unfolding py_split_def by (simp add: split_from_limit)
qed

lemma py_split_prefix:
  assumes "startswith response ''ITERM2 ''"
  shows "py_split CHR '' '' (Some 1) response = [''ITERM2'', drop 7 response]"
  using py_split_iterm2 [of "drop 7 response"] startswith_iterm2 [OF assms] by (simp only:)

section \<open>The negotiation, reply by reply\<close>

text \<open>
  After the two status replies the negotiation depends on the first alone: \<open>t1\<close> is the
  terminal then, in raw mode, with both probes written and both replies read.
\<close>

lemmas io_defs = io_bind_def io_return_def io_lift_def stdout_write_def tcsetattr_def
  tty_setraw_def clear_icanon_echo_def stdin_read1_def read_terminal_response_def

lemma length_two: "length lead = 2 \<Longrightarrow> \<exists>a b. lead = [a, b]"
  by (cases lead; cases "tl lead") auto

lemma negotiate_version:
  assumes "length l1 = 2" and "length l2 = 2"
    and "CHR ''n'' \<notin> set response" and "CHR ''n'' \<notin> set second"
    and "response \<noteq> ''0''" and "response \<noteq> ''3''"
    and "stdin t = reply l1 response CHR ''n'' @ reply l2 second CHR ''n'' @ rest"
  shows "negotiate setraw t =
     (let t1 = t\<lparr>tty_attrs := (setraw (tty_attrs t))\<lparr>lflag := lflag (setraw (tty_attrs t)) AND NOT ICANON AND NOT ECHO\<rparr>,
                  stdout := stdout t @ ESC # ''[1337n'' @ ESC # ''[5n'', stdin := rest\<rparr>
      in if startswith response ''ITERM2 '' \<and> CHR ''.'' \<in> set (drop 7 response) then
           (case py_int (takeWhile (\<lambda>c. c \<noteq> CHR ''.'') (drop 7 response)) of
              Inl e \<Rightarrow> Some (Inl e, t1)
            | Inr v \<Rightarrow> if 3 \<le> v then probe_geometry t1 else Some (Inr (Simple, 0), t1))
         else Some (Inr (Simple, 0), t1))"
proof -
  obtain a1 b1 a2 b2 where l: "l1 = [a1, b1]" "l2 = [a2, b2]"
    using length_two [OF assms(1)] length_two [OF assms(2)] by auto
  have r1: "\<And>acc rest. read_loop CHR ''n'' acc (map Ch response @ Ch CHR ''n'' # rest) = Some (Inr (acc @ response), rest)"
    by (rule read_loop_reply [OF assms(3)])
  have r2: "\<And>acc rest. read_loop CHR ''n'' acc (map Ch second @ Ch CHR ''n'' # rest) = Some (Inr (acc @ second), rest)"
    by (rule read_loop_reply [OF assms(4)])
  show ?thesis
  proof (cases "startswith response ''ITERM2 ''")
    case False
    then show ?thesis
      using assms(5,6,7) by (simp add: negotiate_def io_defs reply_def l r1 r2 Let_def)
  next
    case True
    note sw = this
    have sp: "py_split CHR '' '' (Some 1) response = [''ITERM2'', drop 7 response]"
      by (rule py_split_prefix [OF True])
    note sp' = sp [unfolded One_nat_def]
    show ?thesis
    proof (cases "CHR ''.'' \<in> set (drop 7 response)")
      case False
      then show ?thesis
        using assms(5,6,7) sw py_split_dot(1) [OF False]
        by (simp add: negotiate_def io_defs reply_def l r1 r2 Let_def sp sp' py_index_def)
    next
      case True
      from py_split_dot(2) [OF True] obtain more where
        m: "py_split CHR ''.'' (Some 2) (drop 7 response) = takeWhile (\<lambda>c. c \<noteq> CHR ''.'') (drop 7 response) # more"
           "more \<noteq> []" by blast
      then have len: "2 \<le> length (py_split CHR ''.'' (Some 2) (drop 7 response))"
        by (cases more) auto
      show ?thesis
        using assms(5,6,7) sw True len
        by (simp add: negotiate_def io_defs reply_def l r1 r2 Let_def sp sp' py_index_def m(1) split: sum.splits)
    qed
  qed
qed

lemma io_bind_Inr:
  "io_bind m f t = Some (Inr y, t') \<Longrightarrow> \<exists>x t1. m t = Some (Inr x, t1) \<and> f x t1 = Some (Inr y, t')"
  by (auto simp: io_bind_def split: option.splits sum.splits prod.splits)

lemma probe_geometry_iterm2:
  "probe_geometry t = Some (Inr (ty, n), t') \<Longrightarrow> ty = Iterm2"
  unfolding probe_geometry_def
  apply (drule io_bind_Inr, clarify)+
  apply (simp add: io_return_def)
  done

text \<open>The geometry probes on two replies whose fields of index 1 are integers.\<close>

lemma probe_geometry_replies:
  assumes "length l3 = 2" and "length l4 = 2"
    and "CHR ''t'' \<notin> set pixels" and "CHR ''t'' \<notin> set cells"
    and "stdin t = reply l3 pixels CHR ''t'' @ reply l4 cells CHR ''t'' @ rest"
    and "py_index (py_split CHR '';'' None pixels) 1 = Inr f1" and "py_int f1 = Inr height_in_pixels"
    and "py_index (py_split CHR '';'' None cells) 1 = Inr f2" and "py_int f2 = Inr height_in_cells"
  shows "probe_geometry t =
     Some (case compute_icon_size height_in_pixels height_in_cells of
             Inl e \<Rightarrow> Inl e
           | Inr n \<Rightarrow> Inr (Iterm2, n),
           t\<lparr>stdout := stdout t @ ESC # ''[14t'' @ ESC # ''[18t'', stdin := rest\<rparr>)"
proof -
  obtain a3 b3 a4 b4 where l: "l3 = [a3, b3]" "l4 = [a4, b4]"
    using length_two [OF assms(1)] length_two [OF assms(2)] by auto
  have r1: "\<And>acc rest. read_loop CHR ''t'' acc (map Ch pixels @ Ch CHR ''t'' # rest) = Some (Inr (acc @ pixels), rest)"
    by (rule read_loop_reply [OF assms(3)])
  have r2: "\<And>acc rest. read_loop CHR ''t'' acc (map Ch cells @ Ch CHR ''t'' # rest) = Some (Inr (acc @ cells), rest)"
    by (rule read_loop_reply [OF assms(4)])
  note f = assms(6-9) assms(6) [unfolded One_nat_def] assms(8) [unfolded One_nat_def]
  show ?thesis
    using assms(5)
    by (simp add: probe_geometry_def io_defs reply_def l r1 r2 f split: sum.splits)
qed

lemma detect_terminal_negotiates:
  assumes "have_terminal env" and "\<not> plain_terminal env" and "platform_system env = ''Darwin''"
  shows "detect_terminal setraw env t =
     (case negotiate setraw t of
        None \<Rightarrow> None
      | Some (r, t') \<Rightarrow> Some (r, t'\<lparr>tty_attrs := tty_attrs t\<rparr>))"
  using assms
  by (simp add: detect_terminal_def try_finally_def tcsetattr_def Let_def split: option.splits prod.splits)

section \<open>Terminal detection\<close>

text \<open>
  Claim C7. Without a terminal, with a plain terminal (image output suppressed), or
  on a platform other than Darwin, terminal detection returns \<^verbatim>\<open>("simple", 0)\<close> and
  leaves the terminal as it was: nothing is written, nothing is read and the
  attributes are not touched.
\<close>

theorem detect_terminal_no_terminal:
  "\<not> have_terminal env \<or> plain_terminal env \<or> platform_system env \<noteq> ''Darwin'' \<Longrightarrow>
   detect_terminal setraw env t = Some (Inr (Simple, 0), t)"
  by (auto simp: detect_terminal_def io_return_def)

text \<open>
  Claim C6. On every path on which terminal detection returns or raises (a return of
  \<^verbatim>\<open>"simple"\<close>, a return of \<^verbatim>\<open>"iterm2"\<close>, an exception raised by a read or by the parsing of
  a reply), the attributes of the terminal are afterwards what they were before the
  call, raw mode or not in between.
\<close>

theorem detect_terminal_restores:
  "detect_terminal setraw env t = Some (r, t') \<Longrightarrow> tty_attrs t' = tty_attrs t"
  by (auto simp: detect_terminal_def io_return_def try_finally_def tcsetattr_def Let_def
      split: if_splits option.splits prod.splits sum.splits)

text \<open>
  Claim C2, amended. Let the first reply be neither \<^verbatim>\<open>0\<close> nor \<^verbatim>\<open>3\<close>, and a second reply
  follow. The version is what follows the seven characters of the prefix, its major
  part what precedes its first dot. Terminal detection returns \<^verbatim>\<open>"iterm2"\<close> only if the
  first reply starts with \<^verbatim>\<open>"ITERM2 "\<close>, the version holds a dot, and the major part is
  an integer of at least 3; and when the two geometry replies follow, with integers
  as their fields of index 1 and an icon size that can be computed from them, it
  returns \<^verbatim>\<open>"iterm2"\<close> if and only if these three conditions hold, with that icon size,
  all four probes written and all four replies read. It returns \<^verbatim>\<open>"simple"\<close> exactly
  when the prefix or the dot is missing or the major part is an integer below 3, and
  then with icon size 0, both status probes written and both status replies read.
  When prefix and dot are there and the major part is no integer, it raises
  ValueError.
\<close>

theorem detect_terminal_version_gate:
  assumes "have_terminal env" and "\<not> plain_terminal env" and "platform_system env = ''Darwin''"
    and "length l1 = 2" and "length l2 = 2"
    and "CHR ''n'' \<notin> set response" and "CHR ''n'' \<notin> set second"
    and "response \<noteq> ''0''" and "response \<noteq> ''3''"
    and "stdin t = reply l1 response CHR ''n'' @ reply l2 second CHR ''n'' @ rest"
  shows
    "((\<exists>n t'. detect_terminal setraw env t = Some (Inr (Iterm2, n), t')) \<longrightarrow>
        startswith response ''ITERM2 '' \<and> CHR ''.'' \<in> set (drop 7 response) \<and>
        (\<exists>v. py_int (takeWhile (\<lambda>c. c \<noteq> CHR ''.'') (drop 7 response)) = Inr v \<and> 3 \<le> v)) \<and>
     (\<forall>l3 l4 pixels cells rest' f1 f2 height_in_pixels height_in_cells n.
        length l3 = 2 \<and> length l4 = 2 \<and> CHR ''t'' \<notin> set pixels \<and> CHR ''t'' \<notin> set cells \<and>
        rest = reply l3 pixels CHR ''t'' @ reply l4 cells CHR ''t'' @ rest' \<and>
        py_index (py_split CHR '';'' None pixels) 1 = Inr f1 \<and> py_int f1 = Inr height_in_pixels \<and>
        py_index (py_split CHR '';'' None cells) 1 = Inr f2 \<and> py_int f2 = Inr height_in_cells \<and>
        compute_icon_size height_in_pixels height_in_cells = Inr n \<longrightarrow>
        ((\<exists>n' t'. detect_terminal setraw env t = Some (Inr (Iterm2, n'), t')) \<longleftrightarrow>
           startswith response ''ITERM2 '' \<and> CHR ''.'' \<in> set (drop 7 response) \<and>
           (\<exists>v. py_int (takeWhile (\<lambda>c. c \<noteq> CHR ''.'') (drop 7 response)) = Inr v \<and> 3 \<le> v)) \<and>
        (startswith response ''ITERM2 '' \<and> CHR ''.'' \<in> set (drop 7 response) \<and>
           (\<exists>v. py_int (takeWhile (\<lambda>c. c \<noteq> CHR ''.'') (drop 7 response)) = Inr v \<and> 3 \<le> v) \<longrightarrow>
           detect_terminal setraw env t =
             Some (Inr (Iterm2, n),
                   t\<lparr>stdout := stdout t @ ESC # ''[1337n'' @ ESC # ''[5n'' @ ESC # ''[14t'' @ ESC # ''[18t'',
                     stdin := rest'\<rparr>))) \<and>
     ((\<exists>n t'. detect_terminal setraw env t = Some (Inr (Simple, n), t')) \<longleftrightarrow>
        \<not> (startswith response ''ITERM2 '' \<and> CHR ''.'' \<in> set (drop 7 response)) \<or>
        (\<exists>v. py_int (takeWhile (\<lambda>c. c \<noteq> CHR ''.'') (drop 7 response)) = Inr v \<and> v < 3)) \<and>
     (\<not> (startswith response ''ITERM2 '' \<and> CHR ''.'' \<in> set (drop 7 response)) \<or>
        (\<exists>v. py_int (takeWhile (\<lambda>c. c \<noteq> CHR ''.'') (drop 7 response)) = Inr v \<and> v < 3) \<longrightarrow>
        detect_terminal setraw env t =
          Some (Inr (Simple, 0), t\<lparr>stdout := stdout t @ ESC # ''[1337n'' @ ESC # ''[5n'', stdin := rest\<rparr>)) \<and>
     (startswith response ''ITERM2 '' \<and> CHR ''.'' \<in> set (drop 7 response) \<and>
        (\<exists>e. py_int (takeWhile (\<lambda>c. c \<noteq> CHR ''.'') (drop 7 response)) = Inl e) \<longrightarrow>
        detect_terminal setraw env t =
          Some (Inl ValueError, t\<lparr>stdout := stdout t @ ESC # ''[1337n'' @ ESC # ''[5n'', stdin := rest\<rparr>))"
proof -
  define t1 where "t1 = t\<lparr>tty_attrs := (setraw (tty_attrs t))\<lparr>lflag := lflag (setraw (tty_attrs t)) AND NOT ICANON AND NOT ECHO\<rparr>,
                  stdout := stdout t @ ESC # ''[1337n'' @ ESC # ''[5n'', stdin := rest\<rparr>"
  define sw where "sw = startswith response ''ITERM2 ''"
  define dot where "dot = (CHR ''.'' \<in> set (drop 7 response))"
  define ok where "ok = (sw \<and> dot)"
  define major where "major = py_int (takeWhile (\<lambda>c. c \<noteq> CHR ''.'') (drop 7 response))"
  have fin: "t1\<lparr>tty_attrs := tty_attrs t\<rparr> = t\<lparr>stdout := stdout t @ ESC # ''[1337n'' @ ESC # ''[5n'', stdin := rest\<rparr>"
    by (simp add: t1_def)
  have neg: "negotiate setraw t =
      (if ok then (case major of Inl e \<Rightarrow> Some (Inl e, t1)
                   | Inr v \<Rightarrow> if 3 \<le> v then probe_geometry t1 else Some (Inr (Simple, 0), t1))
       else Some (Inr (Simple, 0), t1))"
    using negotiate_version [OF assms(4-10), of setraw] unfolding t1_def ok_def sw_def dot_def major_def Let_def .
  have det: "detect_terminal setraw env t =
     (case negotiate setraw t of None \<Rightarrow> None | Some (r, t') \<Rightarrow> Some (r, t'\<lparr>tty_attrs := tty_attrs t\<rparr>))"
    by (rule detect_terminal_negotiates [OF assms(1-3)])
  have valerr: "\<And>e. major = Inl e \<Longrightarrow> e = ValueError"
    by (auto simp: major_def py_int_def Let_def split: option.splits)
  have simple: "\<not> ok \<or> (\<exists>v. major = Inr v \<and> v < 3) \<Longrightarrow>
      detect_terminal setraw env t = Some (Inr (Simple, 0), t1\<lparr>tty_attrs := tty_attrs t\<rparr>)"
    unfolding det neg by auto
  have err: "ok \<Longrightarrow> major = Inl e \<Longrightarrow>
      detect_terminal setraw env t = Some (Inl ValueError, t1\<lparr>tty_attrs := tty_attrs t\<rparr>)" for e
    using valerr [of e] unfolding det neg by auto
  have geo: "ok \<Longrightarrow> major = Inr v \<Longrightarrow> 3 \<le> v \<Longrightarrow>
      detect_terminal setraw env t =
        (case probe_geometry t1 of None \<Rightarrow> None | Some (r, t') \<Rightarrow> Some (r, t'\<lparr>tty_attrs := tty_attrs t\<rparr>))" for v
    unfolding det neg by auto
  have geo_not_simple: "ok \<Longrightarrow> major = Inr v \<Longrightarrow> 3 \<le> v \<Longrightarrow>
      detect_terminal setraw env t \<noteq> Some (Inr (Simple, n), t')" for v n t'
    using probe_geometry_iterm2 [of t1 Simple n] unfolding geo
    by (auto split: option.splits prod.splits)
  have iterm: "detect_terminal setraw env t = Some (Inr (Iterm2, n), t') \<Longrightarrow>
      ok \<and> (\<exists>v. major = Inr v \<and> 3 \<le> v)" for n t'
  proof (cases "\<not> ok \<or> (\<exists>v. major = Inr v \<and> v < 3)")
    case True
    assume "detect_terminal setraw env t = Some (Inr (Iterm2, n), t')"
    with simple [OF True] show ?thesis by simp
  next
    case False
    assume d: "detect_terminal setraw env t = Some (Inr (Iterm2, n), t')"
    from False have ok: ok by simp
    show ?thesis
    proof (cases major)
      case (Inl e)
      with err [OF ok Inl] d show ?thesis by simp
    next
      case (Inr v)
      with False ok show ?thesis by auto
    qed
  qed
  have simple_iff: "(\<exists>n t'. detect_terminal setraw env t = Some (Inr (Simple, n), t')) \<longleftrightarrow>
      \<not> ok \<or> (\<exists>v. major = Inr v \<and> v < 3)"
  proof
    assume "\<not> ok \<or> (\<exists>v. major = Inr v \<and> v < 3)"
    from simple [OF this] show "\<exists>n t'. detect_terminal setraw env t = Some (Inr (Simple, n), t')"
      by blast
  next
    assume s: "\<exists>n t'. detect_terminal setraw env t = Some (Inr (Simple, n), t')"
    show "\<not> ok \<or> (\<exists>v. major = Inr v \<and> v < 3)"
    proof (rule ccontr)
      assume c: "\<not> (\<not> ok \<or> (\<exists>v. major = Inr v \<and> v < 3))"
      then have ok: ok by simp
      show False
      proof (cases major)
        case (Inl e)
        with err [OF ok Inl] s show False by simp
      next
        case (Inr v)
        with c have "3 \<le> v" by auto
        from geo_not_simple [OF ok Inr this] s show False by blast
      qed
    qed
  qed
  have iterm2: "detect_terminal setraw env t =
             Some (Inr (Iterm2, n),
                   t\<lparr>stdout := stdout t @ ESC # ''[1337n'' @ ESC # ''[5n'' @ ESC # ''[14t'' @ ESC # ''[18t'',
                     stdin := rest'\<rparr>)"
    if g: "length l3 = 2" "length l4 = 2" "CHR ''t'' \<notin> set pixels" "CHR ''t'' \<notin> set cells"
        "rest = reply l3 pixels CHR ''t'' @ reply l4 cells CHR ''t'' @ rest'"
        "py_index (py_split CHR '';'' None pixels) 1 = Inr f1" "py_int f1 = Inr height_in_pixels"
        "py_index (py_split CHR '';'' None cells) 1 = Inr f2" "py_int f2 = Inr height_in_cells"
        "compute_icon_size height_in_pixels height_in_cells = Inr n"
      and v: ok "major = Inr v" "3 \<le> v"
    for l3 l4 pixels cells rest' f1 f2 height_in_pixels height_in_cells n v
  proof -
    have st: "stdin t1 = reply l3 pixels CHR ''t'' @ reply l4 cells CHR ''t'' @ rest'"
      by (simp add: t1_def g(5))
    have "probe_geometry t1 =
        Some (Inr (Iterm2, n), t1\<lparr>stdout := stdout t1 @ ESC # ''[14t'' @ ESC # ''[18t'', stdin := rest'\<rparr>)"
      using probe_geometry_replies [OF g(1-4) st g(6-9)] by (simp add: g(10))
    then show ?thesis
      unfolding geo [OF v] by (simp add: t1_def)
  qed
  have A: "(\<exists>n t'. detect_terminal setraw env t = Some (Inr (Iterm2, n), t')) \<longrightarrow>
      sw \<and> dot \<and> (\<exists>v. major = Inr v \<and> 3 \<le> v)"
    using iterm unfolding ok_def by blast
  have B: "\<forall>l3 l4 pixels cells rest' f1 f2 height_in_pixels height_in_cells n.
        length l3 = 2 \<and> length l4 = 2 \<and> CHR ''t'' \<notin> set pixels \<and> CHR ''t'' \<notin> set cells \<and>
        rest = reply l3 pixels CHR ''t'' @ reply l4 cells CHR ''t'' @ rest' \<and>
        py_index (py_split CHR '';'' None pixels) 1 = Inr f1 \<and> py_int f1 = Inr height_in_pixels \<and>
        py_index (py_split CHR '';'' None cells) 1 = Inr f2 \<and> py_int f2 = Inr height_in_cells \<and>
        compute_icon_size height_in_pixels height_in_cells = Inr n \<longrightarrow>
        ((\<exists>n' t'. detect_terminal setraw env t = Some (Inr (Iterm2, n'), t')) \<longleftrightarrow>
           sw \<and> dot \<and> (\<exists>v. major = Inr v \<and> 3 \<le> v)) \<and>
        (sw \<and> dot \<and> (\<exists>v. major = Inr v \<and> 3 \<le> v) \<longrightarrow>
           detect_terminal setraw env t =
             Some (Inr (Iterm2, n),
                   t\<lparr>stdout := stdout t @ ESC # ''[1337n'' @ ESC # ''[5n'' @ ESC # ''[14t'' @ ESC # ''[18t'',
                     stdin := rest'\<rparr>))"
  proof (intro allI impI, elim conjE)
    fix l3 l4 pixels cells rest' f1 f2 height_in_pixels height_in_cells n
    assume g: "length l3 = 2" "length l4 = 2" "CHR ''t'' \<notin> set pixels" "CHR ''t'' \<notin> set cells"
        "rest = reply l3 pixels CHR ''t'' @ reply l4 cells CHR ''t'' @ rest'"
        "py_index (py_split CHR '';'' None pixels) 1 = Inr f1" "py_int f1 = Inr height_in_pixels"
        "py_index (py_split CHR '';'' None cells) 1 = Inr f2" "py_int f2 = Inr height_in_cells"
        "compute_icon_size height_in_pixels height_in_cells = Inr n"
    have r: "detect_terminal setraw env t =
             Some (Inr (Iterm2, n),
                   t\<lparr>stdout := stdout t @ ESC # ''[1337n'' @ ESC # ''[5n'' @ ESC # ''[14t'' @ ESC # ''[18t'',
                     stdin := rest'\<rparr>)"
      if "sw \<and> dot \<and> (\<exists>v. major = Inr v \<and> 3 \<le> v)"
    proof -
      from that obtain v where "ok" "major = Inr v" "3 \<le> v" unfolding ok_def by blast
      then show ?thesis by (rule iterm2 [OF g])
    qed
    show "((\<exists>n' t'. detect_terminal setraw env t = Some (Inr (Iterm2, n'), t')) \<longleftrightarrow>
           sw \<and> dot \<and> (\<exists>v. major = Inr v \<and> 3 \<le> v)) \<and>
        (sw \<and> dot \<and> (\<exists>v. major = Inr v \<and> 3 \<le> v) \<longrightarrow>
           detect_terminal setraw env t =
             Some (Inr (Iterm2, n),
                   t\<lparr>stdout := stdout t @ ESC # ''[1337n'' @ ESC # ''[5n'' @ ESC # ''[14t'' @ ESC # ''[18t'',
                     stdin := rest'\<rparr>))"
      using A r by blast
  qed
  have C: "(\<exists>n t'. detect_terminal setraw env t = Some (Inr (Simple, n), t')) \<longleftrightarrow>
      \<not> (sw \<and> dot) \<or> (\<exists>v. major = Inr v \<and> v < 3)"
    using simple_iff unfolding ok_def .
  have D: "\<not> (sw \<and> dot) \<or> (\<exists>v. major = Inr v \<and> v < 3) \<longrightarrow>
      detect_terminal setraw env t =
        Some (Inr (Simple, 0), t\<lparr>stdout := stdout t @ ESC # ''[1337n'' @ ESC # ''[5n'', stdin := rest\<rparr>)"
    using simple unfolding ok_def fin by blast
  have E: "sw \<and> dot \<and> (\<exists>e. major = Inl e) \<longrightarrow>
      detect_terminal setraw env t =
        Some (Inl ValueError, t\<lparr>stdout := stdout t @ ESC # ''[1337n'' @ ESC # ''[5n'', stdin := rest\<rparr>)"
    using err unfolding ok_def fin by blast
  from A B C D E show ?thesis
    unfolding sw_def dot_def major_def
    apply -
    apply (intro conjI)
        apply assumption+
    done
qed

section \<open>The icon size\<close>

text \<open>The definitions that the evaluation of a concrete run unfolds.\<close>

lemmas float_defs = compute_icon_size_def int_truediv_def float_1_77_def round_to_double_def
  floor_log2_def bit_length.simps round_half_even_def

lemmas parse_defs = startswith_def py_split_def py_index_def py_int_def strip_def is_space_def
  parse_unsigned_def max_str_digits_def is_digit_def digit_value_def

lemmas run_defs = detect_terminal_def negotiate_def probe_geometry_def io_defs try_finally_def
  darwin_tty_def reply_def CSI_def Let_def

lemma float_1_77_value: "float_1_77 = Float 7971371340445778 (- 52)"
  by (simp add: float_defs Let_def)

lemma int_truediv_340_20: "int_truediv 340 20 = Inr (Float 4785074604081152 (- 48))"
  by (simp add: float_defs Let_def)

lemma ceil_340_20: "math_ceil (float_mul (Float 4785074604081152 (- 48)) float_1_77) = Inr 31"
  by (simp add: float_1_77_value) (simp add: float_defs Let_def)

lemma compute_icon_size_340_20: "compute_icon_size 340 20 = Inr 31"
  by (simp add: compute_icon_size_def int_truediv_340_20 ceil_340_20)

text \<open>
  The rounding of the floats shows in the result: (1000 / 30) * 1.77 is 59 in exact
  arithmetic, since 1000 * 177 = 59 * (30 * 100), and the floats give 60.
\<close>

lemma compute_icon_size_1000_30:
  "compute_icon_size 1000 30 = Inr 60 \<and> (1000 * 177 :: int) = 59 * (30 * 100)"
  by (simp add: float_defs Let_def)

lemma startswith_not_status: "startswith response ''ITERM2 '' \<Longrightarrow> response \<noteq> ''0'' \<and> response \<noteq> ''3''"
  by (auto simp: startswith_def)

subsection \<open>The roundings\<close>

text \<open>
  The floats against the real numbers: the bit length of a number, the binary
  exponent of a fraction, the rounding of a fraction to an integer, and with them the
  relative error of a rounding to 53 bits, which is at most \<open>2\<^sup>-\<^sup>5\<^sup>3\<close> where the exponent of
  the result is negative and the result is not subnormal.
\<close>

lemma bit_length_bounds: "0 < n \<Longrightarrow> 2 ^ (bit_length n - 1) \<le> n \<and> n < 2 ^ bit_length n"
proof (induction n rule: bit_length.induct)
  case (1 n)
  show ?case
  proof (cases "n div 2 = 0")
    case True
    with "1.prems" have "n = 1" by arith
    then show ?thesis by (simp add: bit_length.simps)
  next
    case False
    then have pos: "0 < n div 2" by simp
    have IH: "2 ^ (bit_length (n div 2) - 1) \<le> n div 2 \<and> n div 2 < 2 ^ bit_length (n div 2)"
      using "1.IH" pos "1.prems" by simp
    have bl: "bit_length n = Suc (bit_length (n div 2))"
      using "1.prems" by (subst bit_length.simps) simp
    have "0 < bit_length (n div 2)"
      using pos by (subst bit_length.simps) simp
    then have "(2::nat) ^ bit_length (n div 2) = 2 * 2 ^ (bit_length (n div 2) - 1)"
      by (cases "bit_length (n div 2)") simp_all
    with IH show ?thesis
      unfolding bl by simp arith
  qed
qed

lemma round_half_even_error:
  assumes "0 < d"
  shows "\<bar>real (round_half_even n d) - real n / real d\<bar> \<le> 1 / 2"
proof -
  define q where "q = n div d"
  define r where "r = n mod d"
  have n: "n = q * d + r" and r: "r < d"
    using assms by (simp_all add: q_def r_def)
  have frac: "real n / real d = real q + real r / real d"
    using assms by (simp add: n field_simps)
  have cases: "round_half_even n d = q \<and> 2 * r \<le> d \<or> round_half_even n d = q + 1 \<and> d \<le> 2 * r"
    unfolding round_half_even_def Let_def q_def [symmetric] r_def [symmetric] by auto
  have low: "2 * r \<le> d \<Longrightarrow> real r / real d \<le> 1 / 2"
    using assms by (simp add: field_simps)
  have high: "d \<le> 2 * r \<Longrightarrow> 1 / 2 \<le> real r / real d"
    using assms by (simp add: field_simps)
  have "0 \<le> real r / real d" "real r / real d < 1"
    using assms r by simp_all
  with cases low high show ?thesis
    unfolding frac by auto
qed

lemma powi_nat: "0 \<le> k \<Longrightarrow> (2::real) powi k = 2 ^ nat k"
  by (simp add: power_int_def)

lemma powi_neg: "k < 0 \<Longrightarrow> (2::real) powi k = 1 / 2 ^ nat (- k)"
  by (simp add: power_int_def field_simps)

lemma powi_less: "(2::real) powi j \<le> x \<Longrightarrow> x < 2 powi k \<Longrightarrow> j < k"
proof (rule ccontr)
  assume a: "2 powi j \<le> x" "x < 2 powi k" and "\<not> j < k"
  then have "k \<le> j" by simp
  then have "(2::real) powi k \<le> 2 powi j" by (intro power_int_increasing) simp_all
  with a show False by simp
qed

lemma floor_log2_bounds:
  assumes "0 < a" and "0 < d"
  shows "2 powi floor_log2 a d \<le> real a / real d \<and> real a / real d < 2 powi (floor_log2 a d + 1)"
proof -
  define la where "la = bit_length a"
  define ld where "ld = bit_length d"
  define k where "k = int la - int ld"
  have a: "2 ^ (la - 1) \<le> a" "a < 2 ^ la"
    using bit_length_bounds [OF assms(1)] by (simp_all add: la_def)
  have d: "2 ^ (ld - 1) \<le> d" "d < 2 ^ ld"
    using bit_length_bounds [OF assms(2)] by (simp_all add: ld_def)
  have lapos: "0 < la" using a(2) assms(1) by (cases la) simp_all
  have ldpos: "0 < ld" using d(2) assms(2) by (cases ld) simp_all
  have ra1: "2 powi (int la - 1) \<le> real a"
  proof -
    have "int la - 1 = int (la - 1)" using lapos by simp
    then have "(2::real) powi (int la - 1) = 2 ^ (la - 1)" by (simp only: power_int_of_nat)
    also have "\<dots> = real (2 ^ (la - 1))" by simp
    also have "\<dots> \<le> real a" using a(1) by (simp only: of_nat_le_iff)
    finally show ?thesis .
  qed
  have ra2: "real a < 2 powi int la"
  proof -
    have "real a < real (2 ^ la)" using a(2) by (simp only: of_nat_less_iff)
    then show ?thesis by simp
  qed
  have rd1: "2 powi (int ld - 1) \<le> real d"
  proof -
    have "int ld - 1 = int (ld - 1)" using ldpos by simp
    then have "(2::real) powi (int ld - 1) = 2 ^ (ld - 1)" by (simp only: power_int_of_nat)
    also have "\<dots> = real (2 ^ (ld - 1))" by simp
    also have "\<dots> \<le> real d" using d(1) by (simp only: of_nat_le_iff)
    finally show ?thesis .
  qed
  have rd2: "real d < 2 powi int ld"
  proof -
    have "real d < real (2 ^ ld)" using d(2) by (simp only: of_nat_less_iff)
    then show ?thesis by simp
  qed
  have pos: "0 < real a" "0 < real d" using assms by simp_all
  have up: "real a / real d < 2 powi (k + 1)"
  proof -
    have "real a / real d < 2 powi int la / 2 powi (int ld - 1)"
      using pos ra2 rd1 by (intro frac_less) simp_all
    also have "\<dots> = 2 powi (int la - (int ld - 1))"
      by (simp add: power_int_diff)
    finally show ?thesis by (simp add: k_def algebra_simps)
  qed
  have lo: "2 powi (k - 1) < real a / real d"
  proof -
    have "2 powi (int la - 1) / 2 powi int ld < real a / real d"
      using pos ra1 rd2 by (intro frac_less2) simp_all
    moreover have "2 powi (int la - 1) / 2 powi int ld = (2::real) powi (int la - 1 - int ld)"
      by (simp add: power_int_diff)
    ultimately show ?thesis by (simp add: k_def algebra_simps)
  qed
  have c: "((0 \<le> k \<and> d * 2 ^ nat k \<le> a) \<or> (k < 0 \<and> d \<le> a * 2 ^ nat (- k))) = (2 powi k \<le> real a / real d)"
  proof (cases "0 \<le> k")
    case True
    have "(d * 2 ^ nat k \<le> a) = (real (d * 2 ^ nat k) \<le> real a)" by (simp only: of_nat_le_iff)
    also have "\<dots> = (2 ^ nat k \<le> real a / real d)" using pos by (simp add: field_simps)
    finally show ?thesis using True by (simp add: powi_nat)
  next
    case False
    then have neg: "k < 0" by simp
    have "(d \<le> a * 2 ^ nat (- k)) = (real d \<le> real (a * 2 ^ nat (- k)))" by (simp only: of_nat_le_iff)
    also have "\<dots> = (1 / 2 ^ nat (- k) \<le> real a / real d)" using pos by (simp add: field_simps)
    finally show ?thesis using neg by (simp add: powi_neg)
  qed
  have fl: "floor_log2 a d = (if 2 powi k \<le> real a / real d then k else k - 1)"
    unfolding floor_log2_def Let_def la_def [symmetric] ld_def [symmetric] k_def [symmetric] c ..
  show ?thesis
    unfolding fl using up lo by auto
qed

lemma floor_log2_range:
  assumes "0 < a" and "0 < d" and "2 powi lo \<le> real a / real d" and "real a / real d < 2 powi hi"
  shows "lo \<le> floor_log2 a d \<and> floor_log2 a d < hi"
  using floor_log2_bounds [OF assms(1,2)] assms(3,4) powi_less [of lo "real a / real d" "floor_log2 a d + 1"]
    powi_less [of "floor_log2 a d" "real a / real d" hi]
  by simp

lemma round_to_double_error:
  assumes "0 < a" and "0 < d" and "- 1022 \<le> floor_log2 a d" and "floor_log2 a d < 52"
  shows "\<exists>m. round_to_double neg a d = Float (if neg then - int m else int m) (floor_log2 a d - 52) \<and>
             \<bar>real m / 2 ^ nat (52 - floor_log2 a d) - real a / real d\<bar> \<le> (real a / real d) / 2 ^ 53"
proof -
  define k where "k = floor_log2 a d"
  define s where "s = nat (52 - k)"
  define m where "m = round_half_even (a * 2 ^ s) d"
  have e: "max (k - 52) (- 1074) = k - 52" "\<not> 0 \<le> k - 52" "nat (- (k - 52)) = s"
    using assms(3,4) by (simp_all add: k_def s_def)
  have res: "round_to_double neg a d = Float (if neg then - int m else int m) (k - 52)"
  proof -
    have "k < 52" using assms(4) by (simp add: k_def)
    with assms(1) show ?thesis
      unfolding round_to_double_def Let_def k_def [symmetric] e m_def by simp
  qed
  have rhe: "\<bar>real m - real (a * 2 ^ s) / real d\<bar> \<le> 1 / 2"
    unfolding m_def by (rule round_half_even_error [OF assms(2)])
  have "real m / 2 ^ s - real a / real d = (real m - real (a * 2 ^ s) / real d) / 2 ^ s"
    by (simp add: field_simps)
  then have "\<bar>real m / 2 ^ s - real a / real d\<bar> = \<bar>real m - real (a * 2 ^ s) / real d\<bar> / 2 ^ s"
    by (simp add: abs_divide)
  also have "\<dots> \<le> (1 / 2) / 2 ^ s"
    using rhe by (intro divide_right_mono) simp_all
  also have "\<dots> = 2 powi k / 2 ^ 53"
  proof -
    have "(2::real) ^ s = 2 powi (52 - k)" using assms(4) by (simp add: s_def k_def powi_nat)
    also have "\<dots> = 2 ^ 52 / 2 powi k" by (simp add: power_int_diff)
    finally show ?thesis by simp
  qed
  also have "\<dots> \<le> (real a / real d) / 2 ^ 53"
    using floor_log2_bounds [OF assms(1,2)] by (intro divide_right_mono) (simp_all add: k_def)
  finally have "\<bar>real m / 2 ^ s - real a / real d\<bar> \<le> (real a / real d) / 2 ^ 53" .
  with res show ?thesis
    unfolding k_def s_def by blast
qed

lemma math_ceil_negative_exponent:
  "e < 0 \<Longrightarrow> math_ceil (Float m e) = Inr \<lceil>real_of_int m / 2 ^ nat (- e)\<rceil>"
proof -
  assume "e < 0"
  have "\<lceil>real_of_int m / 2 ^ nat (- e)\<rceil> = \<lceil>real_of_int m / real_of_int (2 ^ nat (- e))\<rceil>" by simp
  also have "\<dots> = - (- m div 2 ^ nat (- e))" by (rule ceiling_divide_eq_div)
  finally show ?thesis using \<open>e < 0\<close> by simp
qed

lemma ceiling_near_fraction:
  fixes P D :: int and y :: real
  assumes "0 < D" and "\<bar>y - real_of_int P / real_of_int D\<bar> < 1 / real_of_int D"
  shows "\<lceil>y\<rceil> = \<lceil>real_of_int P / real_of_int D\<rceil> \<or>
         \<lceil>y\<rceil> = \<lceil>real_of_int P / real_of_int D\<rceil> + 1 \<and> D dvd P"
proof -
  define N where "N = \<lceil>real_of_int P / real_of_int D\<rceil>"
  have D: "0 < real_of_int D" using assms(1) by simp
  have "real_of_int N - 1 < real_of_int P / real_of_int D" "real_of_int P / real_of_int D \<le> real_of_int N"
    unfolding N_def by linarith+
  then have "real_of_int ((N - 1) * D) < real_of_int P" "real_of_int P \<le> real_of_int (N * D)"
    using D by (simp_all add: field_simps)
  then have i: "(N - 1) * D < P" "P \<le> N * D"
    by (simp_all only: of_int_less_iff of_int_le_iff)
  from i(1) have "(N - 1) * D + 1 \<le> P" by simp
  then have "real_of_int ((N - 1) * D + 1) \<le> real_of_int P" by (simp only: of_int_le_iff)
  then have "real_of_int N - 1 \<le> real_of_int P / real_of_int D - 1 / real_of_int D"
    using D by (simp add: field_simps)
  with assms(2) have "real_of_int (N - 1) < y" by (simp add: abs_less_iff)
  then have lower: "N \<le> \<lceil>y\<rceil>" by (simp only: less_ceiling_iff [symmetric])
  show ?thesis
  proof (cases "D dvd P")
    case True
    have "1 / real_of_int D \<le> 1" using assms(1) by simp
    with assms(2) \<open>real_of_int P / real_of_int D \<le> real_of_int N\<close>
    have "y \<le> real_of_int (N + 1)" by (simp add: abs_less_iff)
    then have "\<lceil>y\<rceil> \<le> N + 1" by (simp only: ceiling_le_iff)
    with lower True show ?thesis unfolding N_def [symmetric] by auto
  next
    case False
    then have "P \<noteq> N * D" by auto
    with i(2) have "P + 1 \<le> N * D" by simp
    then have "real_of_int (P + 1) \<le> real_of_int (N * D)" by (simp only: of_int_le_iff)
    then have "real_of_int P / real_of_int D + 1 / real_of_int D \<le> real_of_int N"
      using D by (simp add: field_simps)
    with assms(2) have "y \<le> real_of_int N" by (simp add: abs_less_iff)
    then have "\<lceil>y\<rceil> \<le> N" by (simp only: ceiling_le_iff)
    with lower show ?thesis unfolding N_def [symmetric] by auto
  qed
qed

lemma int_truediv_error:
  assumes "0 < hp" and "hp < 2 ^ 43" and "0 < hc" and "hc < 2 ^ 43"
  shows "\<exists>m k. int_truediv hp hc = Inr (Float (int m) (k - 52)) \<and> - 43 \<le> k \<and> k < 43 \<and>
           \<bar>real m / 2 ^ nat (52 - k) - real_of_int hp / real_of_int hc\<bar>
             \<le> (real_of_int hp / real_of_int hc) / 2 ^ 53"
proof -
  define a where "a = nat \<bar>hp\<bar>"
  define d where "d = nat \<bar>hc\<bar>"
  define k where "k = floor_log2 a d"
  have ad: "0 < a" "0 < d" and ra: "real a = real_of_int hp" and rd: "real d = real_of_int hc"
    using assms by (simp_all add: a_def d_def)
  have "1 \<le> real_of_int hp" "real_of_int hp < 2 ^ 43" "1 \<le> real_of_int hc" "real_of_int hc < 2 ^ 43"
    using assms by simp_all
  then have "1 / 2 ^ 43 \<le> real_of_int hp / real_of_int hc" "real_of_int hp / real_of_int hc < 2 ^ 43"
    by (simp_all add: field_simps)
  then have "2 powi (- 43) \<le> real a / real d" "real a / real d < 2 powi 43"
    by (simp_all add: ra rd power_int_minus field_simps)
  from floor_log2_range [OF ad this] have k: "- 43 \<le> k" "k < 43"
    by (simp_all add: k_def)
  then have "- 1022 \<le> floor_log2 a d" "floor_log2 a d < 52"
    by (simp_all add: k_def)
  from round_to_double_error [OF ad this, of False] obtain m
    where m: "round_to_double False a d = Float (int m) (k - 52)"
      "\<bar>real m / 2 ^ nat (52 - k) - real a / real d\<bar> \<le> (real a / real d) / 2 ^ 53"
    unfolding k_def by auto
  have "int_truediv hp hc = Inr (Float (int m) (k - 52))"
    using assms m(1) by (simp add: int_truediv_def a_def d_def)
  with k m(2) show ?thesis
    unfolding ra rd by blast
qed

lemma float_mul_1_77_error:
  assumes "0 < m" and "k < 52"
    and p: "p = real m / 2 ^ nat (52 - k) * (7971371340445778 / 2 ^ 52)"
    and "2 powi (- 44) \<le> p" and "p < 2 powi 44"
  shows "\<exists>m2 k2. float_mul (Float (int m) (k - 52)) float_1_77 = Float (int m2) (k2 - 52) \<and> k2 < 52 \<and>
            \<bar>real m2 / 2 ^ nat (52 - k2) - p\<bar> \<le> p / 2 ^ 53"
proof -
  define a where "a = m * 7971371340445778"
  define d where "d = (2::nat) ^ nat (104 - k)"
  define k2 where "k2 = floor_log2 a d"
  have ad: "0 < a" "0 < d" using assms(1) by (simp_all add: a_def d_def)
  have "nat (104 - k) = nat (52 - k) + 52" using assms(2) by simp
  then have "real d = 2 ^ nat (52 - k) * 2 ^ 52" by (simp add: d_def power_add)
  then have quot: "real a / real d = p" by (simp add: a_def p)
  have mul: "float_mul (Float (int m) (k - 52)) float_1_77 = round_to_double False a d"
  proof -
    have "\<not> 0 \<le> k - 52 + - 52" "nat (- (k - 52 + - 52)) = nat (104 - k)"
      "\<not> int m * 7971371340445778 < 0" "nat \<bar>int m * 7971371340445778\<bar> = m * 7971371340445778"
      using assms(2) by (simp_all add: nat_mult_distrib abs_mult)
    then show ?thesis
      unfolding float_1_77_value float_mul.simps Let_def a_def d_def by (simp only: if_False)
  qed
  from floor_log2_range [OF ad, of "- 44" 44] assms(4,5) have k2: "- 44 \<le> k2" "k2 < 44"
    by (simp_all add: quot k2_def)
  then have "- 1022 \<le> floor_log2 a d" "floor_log2 a d < 52"
    by (simp_all add: k2_def)
  from round_to_double_error [OF ad this, of False] obtain m2
    where "round_to_double False a d = Float (int m2) (k2 - 52)"
      "\<bar>real m2 / 2 ^ nat (52 - k2) - p\<bar> \<le> p / 2 ^ 53"
    unfolding k2_def quot by auto
  with mul k2 show ?thesis by auto
qed

lemma relative_error_bounds:
  fixes x y :: real
  assumes "\<bar>y - x\<bar> \<le> x / 2 ^ 53"
  shows "x * (1 - 1 / 2 ^ 53) \<le> y" and "y \<le> x * (1 + 1 / 2 ^ 53)"
proof -
  have "y - x \<le> x / 2 ^ 53" "x - y \<le> x / 2 ^ 53"
    using assms by linarith+
  then show "x * (1 - 1 / 2 ^ 53) \<le> y" and "y \<le> x * (1 + 1 / 2 ^ 53)"
    by (simp_all add: algebra_simps)
qed

lemma compute_icon_size_near:
  assumes "0 < hp" and "hp < 2 ^ 43" and "0 < hc" and "hc < 2 ^ 43"
  shows "\<exists>y. compute_icon_size hp hc = Inr \<lceil>y\<rceil> \<and>
             \<bar>y - real_of_int hp / real_of_int hc * 1.77\<bar> \<le> real_of_int hp / real_of_int hc * 1.77 / 2 ^ 51"
proof -
  define q where "q = real_of_int hp / real_of_int hc"
  define L where "L = (1 - 1 / 2 ^ 53 :: real)"
  define U where "U = (1 + 1 / 2 ^ 53 :: real)"
  define cv where "cv = (7971371340445778 / 2 ^ 52 :: real)"
  define A where "A = L * (1.77 * L)"
  define B where "B = U * (1.77 * U)"
  define Lc where "Lc = L * (cv * L)"
  define Uc where "Uc = U * (cv * U)"
  have LU: "0 < L" "0 < U" "1.77 * L \<le> cv" "cv \<le> 1.77 * U" "0 < cv"
    by (simp_all add: L_def U_def cv_def)
  have AB: "1 \<le> A" "B \<le> 2"
    by (simp_all add: A_def B_def L_def U_def)
  have LUc: "1.77 * (1 - 1 / 2 ^ 51) \<le> Lc" "Uc \<le> 1.77 * (1 + 1 / 2 ^ 51)"
    by (simp_all add: Lc_def Uc_def L_def U_def cv_def)
  have "1 \<le> real_of_int hp" "real_of_int hp < 2 ^ 43" "1 \<le> real_of_int hc" "real_of_int hc < 2 ^ 43"
    using assms by simp_all
  then have q: "1 / 2 ^ 43 \<le> q" "q < 2 ^ 43"
    by (simp_all add: q_def field_simps)
  then have qpos: "0 < q" by simp
  from int_truediv_error [OF assms] obtain m k
    where div: "int_truediv hp hc = Inr (Float (int m) (k - 52))" and k: "- 43 \<le> k" "k < 43"
      and err1: "\<bar>real m / 2 ^ nat (52 - k) - q\<bar> \<le> q / 2 ^ 53"
    unfolding q_def by blast
  define x1 where "x1 = real m / 2 ^ nat (52 - k)"
  define p where "p = x1 * cv"
  have x1: "q * L \<le> x1" "x1 \<le> q * U"
    using relative_error_bounds [OF err1] by (simp_all add: x1_def L_def U_def)
  have "0 < q * L" using qpos LU(1) by (rule mult_pos_pos)
  with x1(1) have x1pos: "0 < x1" by linarith
  then have mpos: "0 < m"
    by (cases "m = 0") (simp_all add: x1_def)
  have "q * L * (1.77 * L) \<le> x1 * cv"
    using x1(1) LU qpos x1pos by (intro mult_mono) simp_all
  then have plo: "q * A \<le> p" by (simp only: A_def p_def mult.assoc)
  have "x1 * cv \<le> q * U * (1.77 * U)"
    using x1(2) LU qpos x1pos by (intro mult_mono) simp_all
  then have phi: "p \<le> q * B" by (simp only: B_def p_def mult.assoc)
  have "q * 1 \<le> q * A" "q * B \<le> q * 2"
    using AB qpos by (simp_all only: mult_le_cancel_left_pos)
  with plo phi have "q \<le> p" "p \<le> 2 * q" by simp_all
  with q have "1 / 2 ^ 44 \<le> p" "p < 2 ^ 44" by simp_all
  then have prange: "2 powi (- 44) \<le> p" "p < 2 powi 44"
    by (simp_all add: power_int_minus field_simps)
  have "k < 52" using k by simp
  from float_mul_1_77_error [OF mpos this _ prange] obtain m2 k2
    where mul: "float_mul (Float (int m) (k - 52)) float_1_77 = Float (int m2) (k2 - 52)" and k2: "k2 < 52"
      and err2: "\<bar>real m2 / 2 ^ nat (52 - k2) - p\<bar> \<le> p / 2 ^ 53"
    unfolding p_def x1_def cv_def by blast
  define y where "y = real m2 / 2 ^ nat (52 - k2)"
  have y: "p * L \<le> y" "y \<le> p * U"
    using relative_error_bounds [OF err2] by (simp_all add: y_def L_def U_def)
  have "math_ceil (Float (int m2) (k2 - 52)) = Inr \<lceil>real_of_int (int m2) / 2 ^ nat (- (k2 - 52))\<rceil>"
    using k2 by (intro math_ceil_negative_exponent) simp
  moreover have "nat (- (k2 - 52)) = nat (52 - k2)" by simp
  ultimately have size: "compute_icon_size hp hc = Inr \<lceil>y\<rceil>"
    by (simp add: compute_icon_size_def div mul y_def)
  have "q * L * cv \<le> x1 * cv" "x1 * cv \<le> q * U * cv"
    using x1 LU(5) by (simp_all only: mult_le_cancel_right_pos)
  then have "q * L * cv * L \<le> p * L" "p * U \<le> q * U * cv * U"
    using LU(1,2) by (simp_all only: p_def mult_le_cancel_right_pos)
  then have "q * Lc \<le> p * L" "p * U \<le> q * Uc"
    by (simp_all only: Lc_def Uc_def mult.assoc)
  with y have "q * Lc \<le> y" "y \<le> q * Uc"
    by linarith+
  moreover have "q * (1.77 * (1 - 1 / 2 ^ 51)) \<le> q * Lc" "q * Uc \<le> q * (1.77 * (1 + 1 / 2 ^ 51))"
    using LUc qpos by (simp_all only: mult_le_cancel_left_pos)
  ultimately have "q * (1.77 * (1 - 1 / 2 ^ 51)) \<le> y" "y \<le> q * (1.77 * (1 + 1 / 2 ^ 51))"
    by linarith+
  then have "y - q * 1.77 \<le> q * 1.77 / 2 ^ 51" "q * 1.77 - y \<le> q * 1.77 / 2 ^ 51"
    by (simp_all add: field_simps)
  then have "\<bar>y - q * 1.77\<bar> \<le> q * 1.77 / 2 ^ 51"
    by linarith
  with size show ?thesis
    unfolding q_def by blast
qed

text \<open>
  The icon size against the exact value of the formula: the three roundings (of the
  quotient, of the literal and of the product) move the value by less than one part
  in \<open>2\<^sup>5\<^sup>1\<close>, which is less than the distance of a fraction over \<open>100 \<sqdot> height_in_cells\<close>
  from the next integer.
\<close>

lemma compute_icon_size_ceiling:
  assumes "0 \<le> hp" and "hp < 2 ^ 43" and "0 < hc" and "hc < 2 ^ 43"
  shows "\<exists>n. compute_icon_size hp hc = Inr n \<and>
           (n = \<lceil>real_of_int hp / real_of_int hc * 1.77\<rceil> \<or>
            n = \<lceil>real_of_int hp / real_of_int hc * 1.77\<rceil> + 1 \<and> (100 * hc) dvd (177 * hp))"
proof (cases "hp = 0")
  case True
  have "compute_icon_size 0 hc = Inr 0"
    using assms(3)
    by (simp add: compute_icon_size_def int_truediv_def float_1_77_value round_to_double_def)
  with True show ?thesis by simp
next
  case False
  with assms(1) have pos: "0 < hp" by simp
  from compute_icon_size_near [OF pos assms(2-4)] obtain y
    where size: "compute_icon_size hp hc = Inr \<lceil>y\<rceil>"
      and near: "\<bar>y - real_of_int hp / real_of_int hc * 1.77\<bar> \<le> real_of_int hp / real_of_int hc * 1.77 / 2 ^ 51"
    by blast
  have frac: "real_of_int hp / real_of_int hc * 1.77 = real_of_int (177 * hp) / real_of_int (100 * hc)"
    by simp
  have "real_of_int hp < 2 ^ 43" "0 < real_of_int hc"
    using assms(2,3) by simp_all
  then have "real_of_int (177 * hp) / real_of_int (100 * hc) / 2 ^ 51 < 1 / real_of_int (100 * hc)"
    by (simp add: field_simps)
  with near have "\<bar>y - real_of_int (177 * hp) / real_of_int (100 * hc)\<bar> < 1 / real_of_int (100 * hc)"
    unfolding frac by linarith
  moreover have "0 < 100 * hc" using assms(3) by simp
  ultimately have "\<lceil>y\<rceil> = \<lceil>real_of_int (177 * hp) / real_of_int (100 * hc)\<rceil> \<or>
      \<lceil>y\<rceil> = \<lceil>real_of_int (177 * hp) / real_of_int (100 * hc)\<rceil> + 1 \<and> (100 * hc) dvd (177 * hp)"
    by (intro ceiling_near_fraction)
  with size show ?thesis
    unfolding frac by blast
qed

text \<open>
  Claim C5, amended. When the version check succeeds and the two geometry replies
  follow, with integers as their fields of index 1 (the second field between
  semicolons), a height in pixels from 0 to below \<open>2\<^sup>4\<^sup>3\<close> and a height in cells above 0
  and below \<open>2\<^sup>4\<^sup>3\<close>, terminal detection returns \<^verbatim>\<open>"iterm2"\<close> with an icon size: it is
  the ceiling of the exact value of (height_in_pixels / height_in_cells) * 1.77
  whenever that value is no integer, and that integer or the next one when it is,
  the quotient and the product being those of the floats. For the heights 340 and 20
  the icon size is 31.
\<close>

theorem detect_terminal_icon_size:
  assumes "have_terminal env" and "\<not> plain_terminal env" and "platform_system env = ''Darwin''"
    and "length l1 = 2" and "length l2 = 2" and "length l3 = 2" and "length l4 = 2"
    and "CHR ''n'' \<notin> set response" and "CHR ''n'' \<notin> set second"
    and "CHR ''t'' \<notin> set pixels" and "CHR ''t'' \<notin> set cells"
    and "stdin t = reply l1 response CHR ''n'' @ reply l2 second CHR ''n''
                   @ reply l3 pixels CHR ''t'' @ reply l4 cells CHR ''t'' @ rest"
    and "startswith response ''ITERM2 ''" and "CHR ''.'' \<in> set (drop 7 response)"
    and "py_int (takeWhile (\<lambda>c. c \<noteq> CHR ''.'') (drop 7 response)) = Inr v" and "3 \<le> v"
    and "py_index (py_split CHR '';'' None pixels) 1 = Inr f1" and "py_int f1 = Inr height_in_pixels"
    and "py_index (py_split CHR '';'' None cells) 1 = Inr f2" and "py_int f2 = Inr height_in_cells"
    and "0 \<le> height_in_pixels" and "height_in_pixels < 2 ^ 43"
    and "0 < height_in_cells" and "height_in_cells < 2 ^ 43"
  shows "(\<exists>n. detect_terminal setraw env t =
                Some (Inr (Iterm2, n),
                      t\<lparr>stdout := stdout t @ ESC # ''[1337n'' @ ESC # ''[5n'' @ ESC # ''[14t'' @ ESC # ''[18t'',
                        stdin := rest\<rparr>) \<and>
              compute_icon_size height_in_pixels height_in_cells = Inr n \<and>
              (n = \<lceil>real_of_int height_in_pixels / real_of_int height_in_cells * 1.77\<rceil> \<or>
               n = \<lceil>real_of_int height_in_pixels / real_of_int height_in_cells * 1.77\<rceil> + 1 \<and>
               (100 * height_in_cells) dvd (177 * height_in_pixels))) \<and>
         compute_icon_size 340 20 = Inr 31"
proof
  show "compute_icon_size 340 20 = Inr 31"
    by (rule compute_icon_size_340_20)
  define t1 where "t1 = t\<lparr>tty_attrs := (setraw (tty_attrs t))\<lparr>lflag := lflag (setraw (tty_attrs t)) AND NOT ICANON AND NOT ECHO\<rparr>,
                  stdout := stdout t @ ESC # ''[1337n'' @ ESC # ''[5n'',
                  stdin := reply l3 pixels CHR ''t'' @ reply l4 cells CHR ''t'' @ rest\<rparr>"
  have ns: "response \<noteq> ''0''" "response \<noteq> ''3''"
    using startswith_not_status [OF assms(13)] by simp_all
  have neg: "negotiate setraw t = probe_geometry t1"
    using negotiate_version [OF assms(4,5,8,9) ns assms(12), of setraw] assms(13-16)
    unfolding t1_def Let_def by simp
  have st: "stdin t1 = reply l3 pixels CHR ''t'' @ reply l4 cells CHR ''t'' @ rest"
    by (simp add: t1_def)
  from compute_icon_size_ceiling [OF assms(21-24)] obtain n
    where size: "compute_icon_size height_in_pixels height_in_cells = Inr n"
      and n: "n = \<lceil>real_of_int height_in_pixels / real_of_int height_in_cells * 1.77\<rceil> \<or>
              n = \<lceil>real_of_int height_in_pixels / real_of_int height_in_cells * 1.77\<rceil> + 1 \<and>
              (100 * height_in_cells) dvd (177 * height_in_pixels)"
    by blast
  have geo: "probe_geometry t1 =
      Some (Inr (Iterm2, n), t1\<lparr>stdout := stdout t1 @ ESC # ''[14t'' @ ESC # ''[18t'', stdin := rest\<rparr>)"
    using probe_geometry_replies [OF assms(6,7,10,11) st assms(17-20)] by (simp add: size)
  have "detect_terminal setraw env t =
           Some (Inr (Iterm2, n),
                 t\<lparr>stdout := stdout t @ ESC # ''[1337n'' @ ESC # ''[5n'' @ ESC # ''[14t'' @ ESC # ''[18t'',
                   stdin := rest\<rparr>)"
    unfolding detect_terminal_negotiates [OF assms(1-3)] neg geo
    by (simp add: t1_def)
  with size n show "\<exists>n. detect_terminal setraw env t =
                Some (Inr (Iterm2, n),
                      t\<lparr>stdout := stdout t @ ESC # ''[1337n'' @ ESC # ''[5n'' @ ESC # ''[14t'' @ ESC # ''[18t'',
                        stdin := rest\<rparr>) \<and>
              compute_icon_size height_in_pixels height_in_cells = Inr n \<and>
              (n = \<lceil>real_of_int height_in_pixels / real_of_int height_in_cells * 1.77\<rceil> \<or>
               n = \<lceil>real_of_int height_in_pixels / real_of_int height_in_cells * 1.77\<rceil> + 1 \<and>
               (100 * height_in_cells) dvd (177 * height_in_pixels))"
    by blast
qed

theorem detect_terminal_icon_size_witness:
  "detect_terminal example_setraw darwin_tty
     \<lparr>tty_attrs = cooked_attrs,
      stdin = reply CSI ''ITERM2 3.4.19'' CHR ''n'' @ reply CSI ''0'' CHR ''n''
              @ reply CSI ''4;340;600'' CHR ''t'' @ reply CSI ''8;20;80'' CHR ''t'' @ [],
      stdout = ''''\<rparr>
   = Some (Inr (Iterm2, 31),
           \<lparr>tty_attrs = cooked_attrs, stdin = [],
            stdout = ESC # ''[1337n'' @ ESC # ''[5n'' @ ESC # ''[14t'' @ ESC # ''[18t''\<rparr>) \<and>
   \<lceil>(340 / 20 :: real) * 1.77\<rceil> = 31 \<and>
   detect_terminal example_setraw darwin_tty
     \<lparr>tty_attrs = cooked_attrs,
      stdin = reply CSI ''ITERM2 3.4.19'' CHR ''n'' @ reply CSI ''0'' CHR ''n''
              @ reply CSI ''4;1000;600'' CHR ''t'' @ reply CSI ''8;30;80'' CHR ''t'' @ [],
      stdout = ''''\<rparr>
   = Some (Inr (Iterm2, 60),
           \<lparr>tty_attrs = cooked_attrs, stdin = [],
            stdout = ESC # ''[1337n'' @ ESC # ''[5n'' @ ESC # ''[14t'' @ ESC # ''[18t''\<rparr>) \<and>
   \<lceil>(1000 / 30 :: real) * 1.77\<rceil> + 1 = 60 \<and> (100 * 30 :: int) dvd 177 * 1000"
proof -
  have h: "have_terminal darwin_tty" "\<not> plain_terminal darwin_tty" "platform_system darwin_tty = ''Darwin''"
    "length CSI = 2" "length CSI = 2" "length CSI = 2" "length CSI = 2"
    "CHR ''n'' \<notin> set ''ITERM2 3.4.19''" "CHR ''n'' \<notin> set ''0''"
    by (simp_all add: darwin_tty_def CSI_def)
  have v: "startswith ''ITERM2 3.4.19'' ''ITERM2 ''" "CHR ''.'' \<in> set (drop 7 ''ITERM2 3.4.19'')"
    "py_int (takeWhile (\<lambda>c. c \<noteq> CHR ''.'') (drop 7 ''ITERM2 3.4.19'')) = Inr 3" "(3::int) \<le> 3"
    by (simp_all add: parse_defs)
  have a: "CHR ''t'' \<notin> set ''4;340;600''" "CHR ''t'' \<notin> set ''8;20;80''"
    "stdin \<lparr>tty_attrs = cooked_attrs,
            stdin = reply CSI ''ITERM2 3.4.19'' CHR ''n'' @ reply CSI ''0'' CHR ''n''
                    @ reply CSI ''4;340;600'' CHR ''t'' @ reply CSI ''8;20;80'' CHR ''t'' @ [],
            stdout = ''''\<rparr>
     = reply CSI ''ITERM2 3.4.19'' CHR ''n'' @ reply CSI ''0'' CHR ''n''
       @ reply CSI ''4;340;600'' CHR ''t'' @ reply CSI ''8;20;80'' CHR ''t'' @ []"
    by simp_all
  have fa: "py_index (py_split CHR '';'' None ''4;340;600'') 1 = Inr ''340''" "py_int ''340'' = Inr 340"
    "py_index (py_split CHR '';'' None ''8;20;80'') 1 = Inr ''20''" "py_int ''20'' = Inr 20"
    "(0::int) \<le> 340" "(340::int) < 2 ^ 43" "(0::int) < 20" "(20::int) < 2 ^ 43"
    by (simp_all add: parse_defs)
  have b: "CHR ''t'' \<notin> set ''4;1000;600''" "CHR ''t'' \<notin> set ''8;30;80''"
    "stdin \<lparr>tty_attrs = cooked_attrs,
            stdin = reply CSI ''ITERM2 3.4.19'' CHR ''n'' @ reply CSI ''0'' CHR ''n''
                    @ reply CSI ''4;1000;600'' CHR ''t'' @ reply CSI ''8;30;80'' CHR ''t'' @ [],
            stdout = ''''\<rparr>
     = reply CSI ''ITERM2 3.4.19'' CHR ''n'' @ reply CSI ''0'' CHR ''n''
       @ reply CSI ''4;1000;600'' CHR ''t'' @ reply CSI ''8;30;80'' CHR ''t'' @ []"
    by simp_all
  have fb: "py_index (py_split CHR '';'' None ''4;1000;600'') 1 = Inr ''1000''" "py_int ''1000'' = Inr 1000"
    "py_index (py_split CHR '';'' None ''8;30;80'') 1 = Inr ''30''" "py_int ''30'' = Inr 30"
    "(0::int) \<le> 1000" "(1000::int) < 2 ^ 43" "(0::int) < 30" "(30::int) < 2 ^ 43"
    by (simp_all add: parse_defs)
  have c: "\<lceil>(340 / 20 :: real) * 1.77\<rceil> = 31" "\<not> (100 * 20 :: int) dvd 177 * 340"
    "\<lceil>(1000 / 30 :: real) * 1.77\<rceil> = 59" "(100 * 30 :: int) dvd 177 * 1000"
    by (simp_all add: ceiling_eq_iff)
  note first = detect_terminal_icon_size
    [where setraw = example_setraw, OF h(1-7) h(8,9) a(1,2) a(3) v fa, THEN conjunct1]
  note second = detect_terminal_icon_size
    [where setraw = example_setraw, OF h(1-7) h(8,9) b(1,2) b(3) v fb, THEN conjunct1]
  from first c(1,2) have r1: "detect_terminal example_setraw darwin_tty
     \<lparr>tty_attrs = cooked_attrs,
      stdin = reply CSI ''ITERM2 3.4.19'' CHR ''n'' @ reply CSI ''0'' CHR ''n''
              @ reply CSI ''4;340;600'' CHR ''t'' @ reply CSI ''8;20;80'' CHR ''t'' @ [],
      stdout = ''''\<rparr>
   = Some (Inr (Iterm2, 31),
           \<lparr>tty_attrs = cooked_attrs, stdin = [],
            stdout = ESC # ''[1337n'' @ ESC # ''[5n'' @ ESC # ''[14t'' @ ESC # ''[18t''\<rparr>)"
    by auto
  from second compute_icon_size_1000_30 have r2: "detect_terminal example_setraw darwin_tty
     \<lparr>tty_attrs = cooked_attrs,
      stdin = reply CSI ''ITERM2 3.4.19'' CHR ''n'' @ reply CSI ''0'' CHR ''n''
              @ reply CSI ''4;1000;600'' CHR ''t'' @ reply CSI ''8;30;80'' CHR ''t'' @ [],
      stdout = ''''\<rparr>
   = Some (Inr (Iterm2, 60),
           \<lparr>tty_attrs = cooked_attrs, stdin = [],
            stdout = ESC # ''[1337n'' @ ESC # ''[5n'' @ ESC # ''[14t'' @ ESC # ''[18t''\<rparr>)"
    by auto
  from r1 r2 c show ?thesis by simp
qed

text \<open>
  The claim as stated fails for the heights 1000 and 30: the exact value of
  (1000 / 30) * 1.77 is 59, and so is its ceiling, while the quotient of the floats is
  above 1000 / 30 and terminal detection returns the icon size 60.
\<close>

theorem detect_terminal_icon_size_rounding_counterexample:
  "detect_terminal example_setraw darwin_tty
     \<lparr>tty_attrs = cooked_attrs,
      stdin = reply CSI ''ITERM2 3.4.19'' CHR ''n'' @ reply CSI ''0'' CHR ''n''
              @ reply CSI ''4;1000;600'' CHR ''t'' @ reply CSI ''8;30;80'' CHR ''t'',
      stdout = ''''\<rparr>
   = Some (Inr (Iterm2, 60),
           \<lparr>tty_attrs = cooked_attrs, stdin = [],
            stdout = ESC # ''[1337n'' @ ESC # ''[5n'' @ ESC # ''[14t'' @ ESC # ''[18t''\<rparr>) \<and>
   py_index (py_split CHR '';'' None ''4;1000;600'') 1 = Inr ''1000'' \<and> py_int ''1000'' = Inr 1000 \<and>
   py_index (py_split CHR '';'' None ''8;30;80'') 1 = Inr ''30'' \<and> py_int ''30'' = Inr 30 \<and>
   \<lceil>(1000 / 30 :: real) * 1.77\<rceil> = 59"
  by (simp add: run_defs parse_defs compute_icon_size_1000_30 ceiling_eq_iff)

section \<open>Runs of the negotiation\<close>

theorem detect_terminal_no_terminal_witness:
  "\<not> have_terminal \<lparr>have_terminal = False, plain_terminal = False, platform_system = ''Darwin''\<rparr> \<and>
   detect_terminal example_setraw
     \<lparr>have_terminal = False, plain_terminal = False, platform_system = ''Darwin''\<rparr>
     \<lparr>tty_attrs = cooked_attrs, stdin = [], stdout = ''''\<rparr>
   = Some (Inr (Simple, 0), \<lparr>tty_attrs = cooked_attrs, stdin = [], stdout = ''''\<rparr>) \<and>
   plain_terminal \<lparr>have_terminal = True, plain_terminal = True, platform_system = ''Darwin''\<rparr> \<and>
   detect_terminal example_setraw
     \<lparr>have_terminal = True, plain_terminal = True, platform_system = ''Darwin''\<rparr>
     \<lparr>tty_attrs = cooked_attrs, stdin = reply CSI ''0'' CHR ''n'', stdout = ''''\<rparr>
   = Some (Inr (Simple, 0), \<lparr>tty_attrs = cooked_attrs, stdin = reply CSI ''0'' CHR ''n'', stdout = ''''\<rparr>) \<and>
   platform_system \<lparr>have_terminal = True, plain_terminal = False, platform_system = ''Linux''\<rparr> \<noteq> ''Darwin'' \<and>
   detect_terminal example_setraw
     \<lparr>have_terminal = True, plain_terminal = False, platform_system = ''Linux''\<rparr>
     \<lparr>tty_attrs = cooked_attrs, stdin = reply CSI ''0'' CHR ''n'', stdout = ''''\<rparr>
   = Some (Inr (Simple, 0), \<lparr>tty_attrs = cooked_attrs, stdin = reply CSI ''0'' CHR ''n'', stdout = ''''\<rparr>)"
  using detect_terminal_no_terminal
    [of "\<lparr>have_terminal = False, plain_terminal = False, platform_system = ''Darwin''\<rparr>" example_setraw
        "\<lparr>tty_attrs = cooked_attrs, stdin = [], stdout = ''''\<rparr>"]
    detect_terminal_no_terminal
    [of "\<lparr>have_terminal = True, plain_terminal = True, platform_system = ''Darwin''\<rparr>" example_setraw
        "\<lparr>tty_attrs = cooked_attrs, stdin = reply CSI ''0'' CHR ''n'', stdout = ''''\<rparr>"]
    detect_terminal_no_terminal
    [of "\<lparr>have_terminal = True, plain_terminal = False, platform_system = ''Linux''\<rparr>" example_setraw
        "\<lparr>tty_attrs = cooked_attrs, stdin = reply CSI ''0'' CHR ''n'', stdout = ''''\<rparr>"]
  by simp

text \<open>
  Four runs on Darwin with a terminal: the terminal answers the first probe with \<^verbatim>\<open>0\<close>;
  iTerm2 3.4.19 with a window of 340 pixels and 20 cells in height; the same with a
  reply to the second geometry probe that holds no number; and a read that fails
  after the first reply.
\<close>

lemma run_simple:
  "detect_terminal example_setraw darwin_tty
     \<lparr>tty_attrs = cooked_attrs, stdin = reply CSI ''0'' CHR ''n'', stdout = ''''\<rparr>
   = Some (Inr (Simple, 0),
           \<lparr>tty_attrs = cooked_attrs, stdin = [], stdout = ESC # ''[1337n'' @ ESC # ''[5n''\<rparr>)"
  by (simp add: run_defs)

lemma run_iterm2:
  "detect_terminal example_setraw darwin_tty
     \<lparr>tty_attrs = cooked_attrs,
      stdin = reply CSI ''ITERM2 3.4.19'' CHR ''n'' @ reply CSI ''0'' CHR ''n''
              @ reply CSI ''4;340;600'' CHR ''t'' @ reply CSI ''8;20;80'' CHR ''t'',
      stdout = ''''\<rparr>
   = Some (Inr (Iterm2, 31),
           \<lparr>tty_attrs = cooked_attrs, stdin = [],
            stdout = ESC # ''[1337n'' @ ESC # ''[5n'' @ ESC # ''[14t'' @ ESC # ''[18t''\<rparr>)"
  by (simp add: run_defs parse_defs compute_icon_size_340_20)

lemma run_value_error:
  "detect_terminal example_setraw darwin_tty
     \<lparr>tty_attrs = cooked_attrs,
      stdin = reply CSI ''ITERM2 3.4.19'' CHR ''n'' @ reply CSI ''0'' CHR ''n''
              @ reply CSI ''4;340;600'' CHR ''t'' @ reply CSI ''8;rows;80'' CHR ''t'',
      stdout = ''''\<rparr>
   = Some (Inl ValueError,
           \<lparr>tty_attrs = cooked_attrs, stdin = [],
            stdout = ESC # ''[1337n'' @ ESC # ''[5n'' @ ESC # ''[14t'' @ ESC # ''[18t''\<rparr>)"
  by (simp add: run_defs parse_defs)

lemma run_os_error:
  "detect_terminal example_setraw darwin_tty
     \<lparr>tty_attrs = cooked_attrs,
      stdin = reply CSI ''ITERM2 3.4.19'' CHR ''n'' @ [Ch ESC, Ch CHR ''['', ReadError],
      stdout = ''''\<rparr>
   = Some (Inl OSError,
           \<lparr>tty_attrs = cooked_attrs, stdin = [], stdout = ESC # ''[1337n'' @ ESC # ''[5n''\<rparr>)"
  by (simp add: run_defs parse_defs)

text \<open>When the terminal sends no reply the negotiation does not return.\<close>

lemma run_no_reply:
  "detect_terminal example_setraw darwin_tty \<lparr>tty_attrs = cooked_attrs, stdin = [], stdout = ''''\<rparr> = None"
  by (simp add: run_defs)

text \<open>In these runs the mode set for the negotiation is not the mode restored.\<close>

lemma raw_mode_differs:
  "(example_setraw cooked_attrs)\<lparr>lflag := lflag (example_setraw cooked_attrs) AND NOT ICANON AND NOT ECHO\<rparr>
     \<noteq> cooked_attrs"
  by (simp add: example_setraw_def cooked_attrs_def ICANON_def ECHO_def)

theorem detect_terminal_restores_witness:
  "detect_terminal example_setraw darwin_tty
     \<lparr>tty_attrs = cooked_attrs, stdin = reply CSI ''0'' CHR ''n'', stdout = ''''\<rparr>
   = Some (Inr (Simple, 0),
           \<lparr>tty_attrs = cooked_attrs, stdin = [], stdout = ESC # ''[1337n'' @ ESC # ''[5n''\<rparr>) \<and>
   tty_attrs \<lparr>tty_attrs = cooked_attrs, stdin = [], stdout = ESC # ''[1337n'' @ ESC # ''[5n''\<rparr>
   = tty_attrs \<lparr>tty_attrs = cooked_attrs, stdin = reply CSI ''0'' CHR ''n'', stdout = ''''\<rparr> \<and>
   detect_terminal example_setraw darwin_tty
     \<lparr>tty_attrs = cooked_attrs,
      stdin = reply CSI ''ITERM2 3.4.19'' CHR ''n'' @ reply CSI ''0'' CHR ''n''
              @ reply CSI ''4;340;600'' CHR ''t'' @ reply CSI ''8;20;80'' CHR ''t'',
      stdout = ''''\<rparr>
   = Some (Inr (Iterm2, 31),
           \<lparr>tty_attrs = cooked_attrs, stdin = [],
            stdout = ESC # ''[1337n'' @ ESC # ''[5n'' @ ESC # ''[14t'' @ ESC # ''[18t''\<rparr>) \<and>
   detect_terminal example_setraw darwin_tty
     \<lparr>tty_attrs = cooked_attrs,
      stdin = reply CSI ''ITERM2 3.4.19'' CHR ''n'' @ reply CSI ''0'' CHR ''n''
              @ reply CSI ''4;340;600'' CHR ''t'' @ reply CSI ''8;rows;80'' CHR ''t'',
      stdout = ''''\<rparr>
   = Some (Inl ValueError,
           \<lparr>tty_attrs = cooked_attrs, stdin = [],
            stdout = ESC # ''[1337n'' @ ESC # ''[5n'' @ ESC # ''[14t'' @ ESC # ''[18t''\<rparr>) \<and>
   detect_terminal example_setraw darwin_tty
     \<lparr>tty_attrs = cooked_attrs,
      stdin = reply CSI ''ITERM2 3.4.19'' CHR ''n'' @ [Ch ESC, Ch CHR ''['', ReadError],
      stdout = ''''\<rparr>
   = Some (Inl OSError,
           \<lparr>tty_attrs = cooked_attrs, stdin = [], stdout = ESC # ''[1337n'' @ ESC # ''[5n''\<rparr>) \<and>
   tty_attrs \<lparr>tty_attrs = cooked_attrs, stdin = [],
              stdout = ESC # ''[1337n'' @ ESC # ''[5n'' @ ESC # ''[14t'' @ ESC # ''[18t''\<rparr> = cooked_attrs \<and>
   (example_setraw cooked_attrs)\<lparr>lflag := lflag (example_setraw cooked_attrs) AND NOT ICANON AND NOT ECHO\<rparr>
     \<noteq> cooked_attrs"
  using detect_terminal_restores [OF run_simple] detect_terminal_restores [OF run_iterm2]
    detect_terminal_restores [OF run_value_error] detect_terminal_restores [OF run_os_error]
    run_simple run_iterm2 run_value_error run_os_error raw_mode_differs
  by simp

theorem detect_terminal_version_gate_witness:
  "detect_terminal example_setraw darwin_tty
     \<lparr>tty_attrs = cooked_attrs,
      stdin = reply CSI ''ITERM2 3.4.19'' CHR ''n'' @ reply CSI ''0'' CHR ''n''
              @ reply CSI ''4;340;600'' CHR ''t'' @ reply CSI ''8;20;80'' CHR ''t'' @ [],
      stdout = ''''\<rparr>
   = Some (Inr (Iterm2, 31),
           \<lparr>tty_attrs = cooked_attrs, stdin = [],
            stdout = ESC # ''[1337n'' @ ESC # ''[5n'' @ ESC # ''[14t'' @ ESC # ''[18t''\<rparr>) \<and>
   detect_terminal example_setraw darwin_tty
     \<lparr>tty_attrs = cooked_attrs,
      stdin = reply CSI ''ITERM2 2.9.1'' CHR ''n'' @ reply CSI ''0'' CHR ''n'' @ [], stdout = ''''\<rparr>
   = Some (Inr (Simple, 0),
           \<lparr>tty_attrs = cooked_attrs, stdin = [], stdout = ESC # ''[1337n'' @ ESC # ''[5n''\<rparr>) \<and>
   detect_terminal example_setraw darwin_tty
     \<lparr>tty_attrs = cooked_attrs,
      stdin = reply CSI ''ITERM2 beta.1'' CHR ''n'' @ reply CSI ''0'' CHR ''n'' @ [], stdout = ''''\<rparr>
   = Some (Inl ValueError,
           \<lparr>tty_attrs = cooked_attrs, stdin = [], stdout = ESC # ''[1337n'' @ ESC # ''[5n''\<rparr>) \<and>
   detect_terminal example_setraw darwin_tty
     \<lparr>tty_attrs = cooked_attrs,
      stdin = reply CSI ''xterm'' CHR ''n'' @ reply CSI ''0'' CHR ''n'' @ [], stdout = ''''\<rparr>
   = Some (Inr (Simple, 0),
           \<lparr>tty_attrs = cooked_attrs, stdin = [], stdout = ESC # ''[1337n'' @ ESC # ''[5n''\<rparr>)"
proof -
  have h: "have_terminal darwin_tty" "\<not> plain_terminal darwin_tty" "platform_system darwin_tty = ''Darwin''"
    "length CSI = 2" "length CSI = 2"
    "CHR ''n'' \<notin> set ''ITERM2 3.4.19''" "CHR ''n'' \<notin> set ''0''"
    "''ITERM2 3.4.19'' \<noteq> ''0''" "''ITERM2 3.4.19'' \<noteq> ''3''"
    "stdin \<lparr>tty_attrs = cooked_attrs,
            stdin = reply CSI ''ITERM2 3.4.19'' CHR ''n'' @ reply CSI ''0'' CHR ''n''
                    @ reply CSI ''4;340;600'' CHR ''t'' @ reply CSI ''8;20;80'' CHR ''t'' @ [],
            stdout = ''''\<rparr>
     = reply CSI ''ITERM2 3.4.19'' CHR ''n'' @ reply CSI ''0'' CHR ''n''
       @ (reply CSI ''4;340;600'' CHR ''t'' @ reply CSI ''8;20;80'' CHR ''t'' @ [])"
    by (simp_all add: darwin_tty_def CSI_def)
  have g: "length CSI = 2 \<and> length CSI = 2 \<and> CHR ''t'' \<notin> set ''4;340;600'' \<and> CHR ''t'' \<notin> set ''8;20;80'' \<and>
      reply CSI ''4;340;600'' CHR ''t'' @ reply CSI ''8;20;80'' CHR ''t'' @ []
        = reply CSI ''4;340;600'' CHR ''t'' @ reply CSI ''8;20;80'' CHR ''t'' @ [] \<and>
      py_index (py_split CHR '';'' None ''4;340;600'') 1 = Inr ''340'' \<and> py_int ''340'' = Inr 340 \<and>
      py_index (py_split CHR '';'' None ''8;20;80'') 1 = Inr ''20'' \<and> py_int ''20'' = Inr 20 \<and>
      compute_icon_size 340 20 = Inr 31"
    by (simp add: CSI_def parse_defs compute_icon_size_340_20)
  have v: "startswith ''ITERM2 3.4.19'' ''ITERM2 '' \<and> CHR ''.'' \<in> set (drop 7 ''ITERM2 3.4.19'') \<and>
      (\<exists>v. py_int (takeWhile (\<lambda>c. c \<noteq> CHR ''.'') (drop 7 ''ITERM2 3.4.19'')) = Inr v \<and> 3 \<le> v)"
    by (simp add: parse_defs)
  note gate = detect_terminal_version_gate [where setraw = example_setraw, OF h]
  note geometry = gate [THEN conjunct2, THEN conjunct1, rule_format, OF g]
  from geometry [THEN conjunct2, rule_format, OF v]
  have iterm2: "detect_terminal example_setraw darwin_tty
     \<lparr>tty_attrs = cooked_attrs,
      stdin = reply CSI ''ITERM2 3.4.19'' CHR ''n'' @ reply CSI ''0'' CHR ''n''
              @ reply CSI ''4;340;600'' CHR ''t'' @ reply CSI ''8;20;80'' CHR ''t'' @ [],
      stdout = ''''\<rparr>
   = Some (Inr (Iterm2, 31),
           \<lparr>tty_attrs = cooked_attrs, stdin = [],
            stdout = ESC # ''[1337n'' @ ESC # ''[5n'' @ ESC # ''[14t'' @ ESC # ''[18t''\<rparr>)"
    by simp
  show ?thesis
    using iterm2
      detect_terminal_version_gate
      [where env = darwin_tty and ?l1.0 = CSI and ?l2.0 = CSI and response = "''ITERM2 2.9.1''"
         and second = "''0''" and rest = "[]" and setraw = example_setraw
         and t = "\<lparr>tty_attrs = cooked_attrs,
                   stdin = reply CSI ''ITERM2 2.9.1'' CHR ''n'' @ reply CSI ''0'' CHR ''n'' @ [], stdout = ''''\<rparr>"]
      detect_terminal_version_gate
      [where env = darwin_tty and ?l1.0 = CSI and ?l2.0 = CSI and response = "''ITERM2 beta.1''"
         and second = "''0''" and rest = "[]" and setraw = example_setraw
         and t = "\<lparr>tty_attrs = cooked_attrs,
                   stdin = reply CSI ''ITERM2 beta.1'' CHR ''n'' @ reply CSI ''0'' CHR ''n'' @ [], stdout = ''''\<rparr>"]
      detect_terminal_version_gate
      [where env = darwin_tty and ?l1.0 = CSI and ?l2.0 = CSI and response = "''xterm''"
         and second = "''0''" and rest = "[]" and setraw = example_setraw
         and t = "\<lparr>tty_attrs = cooked_attrs,
                   stdin = reply CSI ''xterm'' CHR ''n'' @ reply CSI ''0'' CHR ''n'' @ [], stdout = ''''\<rparr>"]
    by (simp add: darwin_tty_def CSI_def parse_defs)
qed

text \<open>
  The claim as stated fails in two ways. For a version without a dot: the first reply
  \<^verbatim>\<open>ITERM2 3\<close> starts with the prefix, its dot-separated version is the one token \<^verbatim>\<open>3\<close>,
  which is the integer 3, and terminal detection returns \<^verbatim>\<open>"simple"\<close> and leaves the two
  geometry replies unread: line 222 asks for two tokens. And not every other first reply
  yields \<^verbatim>\<open>"simple"\<close>: on \<^verbatim>\<open>ITERM2 beta.1\<close> the conversion of the major part raises ValueError.
\<close>

theorem detect_terminal_version_without_dot_counterexample:
  "''ITERM2 3'' \<noteq> ''0'' \<and> ''ITERM2 3'' \<noteq> ''3'' \<and>
   startswith ''ITERM2 3'' ''ITERM2 '' \<and>
   py_split CHR ''.'' (Some 2) (drop 7 ''ITERM2 3'') = [''3''] \<and>
   py_int ''3'' = Inr 3 \<and>
   detect_terminal example_setraw darwin_tty
     \<lparr>tty_attrs = cooked_attrs,
      stdin = reply CSI ''ITERM2 3'' CHR ''n'' @ reply CSI ''0'' CHR ''n''
              @ reply CSI ''4;340;600'' CHR ''t'' @ reply CSI ''8;20;80'' CHR ''t'',
      stdout = ''''\<rparr>
   = Some (Inr (Simple, 0),
           \<lparr>tty_attrs = cooked_attrs,
            stdin = reply CSI ''4;340;600'' CHR ''t'' @ reply CSI ''8;20;80'' CHR ''t'',
            stdout = ESC # ''[1337n'' @ ESC # ''[5n''\<rparr>) \<and>
   ''ITERM2 beta.1'' \<noteq> ''0'' \<and> ''ITERM2 beta.1'' \<noteq> ''3'' \<and>
   detect_terminal example_setraw darwin_tty
     \<lparr>tty_attrs = cooked_attrs,
      stdin = reply CSI ''ITERM2 beta.1'' CHR ''n'' @ reply CSI ''0'' CHR ''n'', stdout = ''''\<rparr>
   = Some (Inl ValueError,
           \<lparr>tty_attrs = cooked_attrs, stdin = [], stdout = ESC # ''[1337n'' @ ESC # ''[5n''\<rparr>)"
  by (simp add: run_defs parse_defs)

section \<open>The listings: the sort, the rows and the icon column\<close>

lemma set_insort_cmp: "set (insort_cmp cmp x xs) = insert x (set xs)"
  by (induction xs) auto

lemma set_sorted_cmp: "set (sorted_cmp cmp xs) = set xs"
  by (induction xs) (auto simp: set_insort_cmp)

lemma cmp3_lt0: "((if (y::'a::linorder) < x then (1::int) else if x < y then - 1 else 0) < 0) = (x < y)"
  by auto

text \<open>The sort keeps every element, as often as it occurs.\<close>

lemma count_insort_cmp: "count_list (insort_cmp cmp x xs) y = count_list (x # xs) y"
  by (induction xs) auto

lemma count_sorted_cmp: "count_list (sorted_cmp cmp xs) y = count_list xs y"
  by (induction xs) (auto simp: count_insort_cmp)

lemma length_insort_cmp: "length (insort_cmp cmp x xs) = Suc (length xs)"
  by (induction xs) auto

lemma length_sorted_cmp: "length (sorted_cmp cmp xs) = length xs"
  by (induction xs) (auto simp: length_insort_cmp)

text \<open>For a comparator that is total and transitive the result is in order.\<close>

lemma sorted_insort_cmp:
  assumes total: "\<And>a b. \<not> cmp a b < 0 \<Longrightarrow> cmp b a \<le> 0"
    and trans: "\<And>a b c. cmp a b \<le> 0 \<Longrightarrow> cmp b c \<le> 0 \<Longrightarrow> cmp a c \<le> 0"
  shows "sorted_wrt (\<lambda>a b. cmp a b \<le> 0) xs \<Longrightarrow> sorted_wrt (\<lambda>a b. cmp a b \<le> 0) (insort_cmp cmp x xs)"
proof (induction xs)
  case Nil
  show ?case by simp
next
  case (Cons y ys)
  show ?case
  proof (cases "cmp y x < 0")
    case True
    with Cons show ?thesis by (auto simp: set_insort_cmp)
  next
    case False
    then have xy: "cmp x y \<le> 0" by (rule total)
    have "cmp x z \<le> 0" if "z \<in> set ys" for z
      using Cons.prems that xy trans [of x y z] by auto
    with xy Cons.prems False show ?thesis by auto
  qed
qed

lemma sorted_sorted_cmp:
  assumes total: "\<And>a b. \<not> cmp a b < 0 \<Longrightarrow> cmp b a \<le> 0"
    and trans: "\<And>a b c. cmp a b \<le> 0 \<Longrightarrow> cmp b c \<le> 0 \<Longrightarrow> cmp a c \<le> 0"
  shows "sorted_wrt (\<lambda>a b. cmp a b \<le> 0) (sorted_cmp cmp xs)"
  by (induction xs) (simp_all add: sorted_insort_cmp [OF total trans])

text \<open>Records that compare equal keep the order they had in the input.\<close>

lemma filter_insort_cmp:
  assumes eq: "\<And>x y. cmp a y = 0 \<Longrightarrow> cmp a x = 0 \<Longrightarrow> \<not> cmp y x < 0"
  shows "filter (\<lambda>b. cmp a b = 0) (insort_cmp cmp x xs) = filter (\<lambda>b. cmp a b = 0) (x # xs)"
proof (induction xs)
  case Nil
  show ?case by simp
next
  case (Cons y ys)
  show ?case
  proof (cases "cmp y x < 0")
    case True
    then have "\<not> (cmp a y = 0 \<and> cmp a x = 0)" using eq by blast
    with True Cons show ?thesis by auto
  next
    case False
    then show ?thesis by simp
  qed
qed

lemma filter_sorted_cmp:
  assumes eq: "\<And>x y. cmp a y = 0 \<Longrightarrow> cmp a x = 0 \<Longrightarrow> \<not> cmp y x < 0"
  shows "filter (\<lambda>b. cmp a b = 0) (sorted_cmp cmp xs) = filter (\<lambda>b. cmp a b = 0) xs"
proof (induction xs)
  case Nil
  show ?case by simp
next
  case (Cons x xs)
  have "filter (\<lambda>b. cmp a b = 0) (sorted_cmp cmp (x # xs))
      = filter (\<lambda>b. cmp a b = 0) (x # sorted_cmp cmp xs)"
    using filter_insort_cmp [of cmp a x "sorted_cmp cmp xs"] eq by simp
  with Cons show ?case by simp
qed

lemma compare_applications_le0:
  "(compare_applications a b \<le> 0) =
     ((pid a \<noteq> 0 \<and> pid b = 0) \<or> ((pid a \<noteq> 0) = (pid b \<noteq> 0) \<and> name a \<le> name b))"
  unfolding compare_applications_def Let_def
  by (cases "pid a = 0"; cases "pid b = 0") (simp_all add: cmp3_le0)

lemma compare_applications_lt0:
  "(compare_applications a b < 0) =
     ((pid a \<noteq> 0 \<and> pid b = 0) \<or> ((pid a \<noteq> 0) = (pid b \<noteq> 0) \<and> name a < name b))"
  unfolding compare_applications_def Let_def
  by (cases "pid a = 0"; cases "pid b = 0") (simp_all add: cmp3_lt0)

lemma compare_applications_eq0:
  "(compare_applications a b = 0) = ((pid a \<noteq> 0) = (pid b \<noteq> 0) \<and> name a = name b)"
  unfolding compare_applications_def Let_def
  by (cases "pid a = 0"; cases "pid b = 0") (simp_all add: cmp3_eq0)

lemma compare_applications_total: "\<not> compare_applications a b < 0 \<Longrightarrow> compare_applications b a \<le> 0"
  unfolding compare_applications_le0 compare_applications_lt0
  by (cases "pid a = 0"; cases "pid b = 0") auto

lemma compare_applications_trans:
  "compare_applications a b \<le> 0 \<Longrightarrow> compare_applications b c \<le> 0 \<Longrightarrow> compare_applications a c \<le> 0"
  unfolding compare_applications_le0
  by (cases "pid a = 0"; cases "pid b = 0"; cases "pid c = 0") auto

lemma compare_applications_equal:
  "compare_applications a y = 0 \<Longrightarrow> compare_applications a x = 0 \<Longrightarrow> \<not> compare_applications y x < 0"
  unfolding compare_applications_eq0 compare_applications_lt0 by auto

lemma sorted_applications:
  "sorted_wrt (\<lambda>a b. compare_applications a b \<le> 0) (sorted_cmp compare_applications xs)"
  by (rule sorted_sorted_cmp [OF compare_applications_total compare_applications_trans])

lemma stable_applications:
  "filter (\<lambda>b. compare_applications a b = 0) (sorted_cmp compare_applications xs)
     = filter (\<lambda>b. compare_applications a b = 0) xs"
  by (rule filter_sorted_cmp [OF compare_applications_equal])


lemma name_cell_cases:
  "name_cell size_px icon_width name_width item =
     (if icon_width = 0 then Inr (ljust name_width (name item))
      else case parameters item ''icons'' of
             None \<Rightarrow> Inr (''   '' @ '' '' @ ljust name_width (name item))
           | Some [] \<Rightarrow> Inl IndexError
           | Some (icon # icons) \<Rightarrow> Inr (render_icon size_px icon @ '' '' @ ljust name_width (name item)))"
  by (simp add: name_cell_def py_index_def split: option.splits list.splits)

lemma name_cell_raises:
  "isl (name_cell size_px icon_width name_width item) \<longleftrightarrow>
     icon_width \<noteq> 0 \<and> parameters item ''icons'' = Some []"
  "name_cell size_px icon_width name_width item = Inl e \<Longrightarrow> e = IndexError"
  by (auto simp: name_cell_cases split: option.splits list.splits if_splits)

lemma process_row_raises:
  "isl (process_row size_px pw icon_width name_width p) \<longleftrightarrow>
     icon_width \<noteq> 0 \<and> parameters p ''icons'' = Some []"
  "process_row size_px pw icon_width name_width p = Inl e \<Longrightarrow> e = IndexError"
  using name_cell_raises [of size_px icon_width name_width p]
  by (auto simp: process_row_def split: sum.splits)

lemma application_row_raises:
  "isl (application_row size_px pw icon_width name_width iw a) \<longleftrightarrow>
     icon_width \<noteq> 0 \<and> parameters a ''icons'' = Some []"
  "application_row size_px pw icon_width name_width iw a = Inl e \<Longrightarrow> e = IndexError"
  using name_cell_raises [of size_px icon_width name_width a]
  by (auto simp: application_row_def split: sum.splits)

lemma print_rows_raises:
  assumes "\<And>x e. row x = Inl e \<Longrightarrow> e = err"
  shows "snd (print_rows row xs) = (if \<exists>x \<in> set xs. isl (row x) then Some err else None)"
proof (induction xs)
  case Nil
  show ?case by simp
next
  case (Cons x xs)
  show ?case
  proof (cases "row x")
    case (Inl e)
    with assms [of x e] show ?thesis by simp
  next
    case (Inr line)
    obtain es r where p: "print_rows row xs = (es, r)" by (cases "print_rows row xs")
    with Cons have "r = (if \<exists>x \<in> set xs. isl (row x) then Some err else None)" by simp
    with Inr p show ?thesis by simp
  qed
qed

lemma processes_table_raises:
  "snd (processes_table size_px processes) =
     (if listing_icon_width processes \<noteq> 0 \<and> (\<exists>p \<in> set processes. parameters p ''icons'' = Some [])
      then Some IndexError else None)"
proof -
  have "snd (print_rows (process_row size_px pw iw nw) xs) =
      (if \<exists>x \<in> set xs. isl (process_row size_px pw iw nw x) then Some IndexError else None)"
    for pw iw nw xs
    by (rule print_rows_raises) (rule process_row_raises(2))
  then show ?thesis
    unfolding processes_table_def Let_def
    by (simp add: process_row_raises(1) set_sorted_cmp)
qed

lemma applications_table_raises:
  "snd (applications_table size_px applications) =
     (if listing_icon_width applications \<noteq> 0 \<and> (\<exists>a \<in> set applications. parameters a ''icons'' = Some [])
      then Some IndexError else None)"
proof -
  have "snd (print_rows (application_row size_px pw iw nw idw) xs) =
      (if \<exists>x \<in> set xs. isl (application_row size_px pw iw nw idw x) then Some IndexError else None)"
    for pw iw nw idw xs
    by (rule print_rows_raises) (rule application_row_raises(2))
  then show ?thesis
    unfolding applications_table_def Let_def
    by (simp add: application_row_raises(1) set_sorted_cmp)
qed

text \<open>
  The icon column width of a listing is one number for all its rows: 4 when a record
  of the list holds an icon descriptor of format \<^verbatim>\<open>png\<close>, and 0 otherwise.
\<close>

lemma first_png_width_cases:
  "first_png_width icons = (if \<exists>i \<in> set icons. icon_format i = ''png'' then 4 else 0)"
  by (induction icons) auto

lemma compute_icon_width_cases:
  "compute_icon_width r =
     (if \<exists>icons. parameters r ''icons'' = Some icons \<and> (\<exists>i \<in> set icons. icon_format i = ''png'')
      then 4 else 0)"
  by (cases "parameters r ''icons''") (simp_all add: compute_icon_width_def first_png_width_cases)

lemma compute_icon_width_range: "compute_icon_width r = 0 \<or> compute_icon_width r = 4"
  by (simp add: compute_icon_width_cases)

lemma fold_max_cases:
  "\<forall>y \<in> set ys. y = 0 \<or> y = 4 \<Longrightarrow> x = 0 \<or> x = 4 \<Longrightarrow>
   fold max ys x = (if x = 4 \<or> (4::int) \<in> set ys then 4 else 0)"
  by (induction ys arbitrary: x) auto

lemma listing_icon_width_cases:
  assumes "records \<noteq> []"
  shows "listing_icon_width records =
     (if \<exists>r \<in> set records. \<exists>icons. parameters r ''icons'' = Some icons \<and> (\<exists>i \<in> set icons. icon_format i = ''png'')
      then 4 else 0)"
proof -
  from assms obtain r rs where rs: "records = r # rs" by (cases records) auto
  have "fold max (map compute_icon_width rs) (compute_icon_width r) =
      (if compute_icon_width r = 4 \<or> 4 \<in> set (map compute_icon_width rs) then 4 else 0)"
    using compute_icon_width_range by (intro fold_max_cases) auto
  moreover have "(compute_icon_width r = 4 \<or> 4 \<in> set (map compute_icon_width rs)) =
      (\<exists>r \<in> set records. compute_icon_width r = 4)"
    unfolding rs by force
  ultimately show ?thesis
    unfolding listing_icon_width_def rs by (simp add: compute_icon_width_cases)
qed

text \<open>
  For the processes the scope sent to the device reads the option and the terminal:
  when the device sends no icons for the scope \<^verbatim>\<open>"minimal"\<close>, the icon column width is 4
  exactly when icons are not excluded, the format is text, the terminal is iTerm2 and
  a process has a \<^verbatim>\<open>png\<close> icon.
\<close>

lemma list_processes_icon_width:
  assumes "try_enumerate_processes self = Inr processes" and "processes \<noteq> []"
    and "processes_scope self = Minimal \<Longrightarrow> \<forall>p \<in> set processes. parameters p ''icons'' = None"
  shows "listing_icon_width processes =
     (if \<not> exclude_icons self \<and> output_format self = Text \<and> terminal_type self = Iterm2 \<and>
         (\<exists>p \<in> set processes. \<exists>icons. parameters p ''icons'' = Some icons \<and>
            (\<exists>i \<in> set icons. icon_format i = ''png''))
      then 4 else 0)"
proof (cases "processes_scope self")
  case Minimal
  with assms(3) have none: "\<forall>p \<in> set processes. parameters p ''icons'' = None" by simp
  have "listing_icon_width processes = 0"
    unfolding listing_icon_width_cases [OF assms(2)] using none by simp
  moreover have "\<not> (\<not> exclude_icons self \<and> output_format self = Text \<and> terminal_type self = Iterm2)"
    using Minimal by (auto simp: processes_scope_def split: if_splits)
  ultimately show ?thesis by auto
next
  case Full
  then have "\<not> exclude_icons self \<and> output_format self = Text \<and> terminal_type self = Iterm2"
    by (auto simp: processes_scope_def split: if_splits)
  then show ?thesis
    unfolding listing_icon_width_cases [OF assms(2)] by simp
qed

section \<open>Exit codes\<close>







section \<open>Listings at concrete records\<close>

lemma replicate_numeral: "replicate (numeral k) x = x # replicate (pred_numeral k) x"
  by (simp add: numeral_eq_Suc)

lemmas listing_defs = replicate_numeral list_applications_def list_processes_def try_enumerate_applications_def
  try_enumerate_processes_def applications_scope_def processes_scope_def and_then_def
  applications_table_def processes_table_def listing_icon_width_def compute_icon_width_def
  application_row_def process_row_def name_cell_def render_icon_def py_index_def rjust_def ljust_def
  str_int_def str_nat.simps digit_char_def b64_char_def b64_alphabet_def
  compare_applications_def compare_processes_def Let_def

text \<open>
  Claim C1. The listing of applications does not read the option \<^verbatim>\<open>exclude_icons\<close>: with
  icons excluded, on iTerm2, in text mode, it asks the device for the scope \<^verbatim>\<open>"full"\<close>,
  and for an application with a \<^verbatim>\<open>png\<close> icon the icon column is 4 wide (the name column
  is 7 for the name \<^verbatim>\<open>Bar\<close>) and the row holds the icon. The listing of processes asks
  for \<^verbatim>\<open>"minimal"\<close> there (\<open>list_processes_icon_width\<close>).
\<close>

theorem list_applications_ignores_exclude_icons:
  "exclude_icons
     \<lparr>list_only_applications = True, include_all_applications = False, output_format = Text,
      exclude_icons = True, terminal_type = Iterm2, icon_size = 31,
      device = Some \<lparr>enumerate_processes = (\<lambda>scope. Inr []),
                      enumerate_applications = (\<lambda>scope. Inr
                        [\<lparr>pid = 42, name = ''Bar'',
                          parameters = (if scope = Full
                                        then [''icons'' \<mapsto> [\<lparr>icon_format = ''png'', icon_image = ''PNG''\<rparr>]]
                                        else Map.empty),
                          app_identifier = ''com.bar''\<rparr>])\<rparr>\<rparr> \<and>
   list_applications
     \<lparr>list_only_applications = True, include_all_applications = False, output_format = Text,
      exclude_icons = True, terminal_type = Iterm2, icon_size = 31,
      device = Some \<lparr>enumerate_processes = (\<lambda>scope. Inr []),
                      enumerate_applications = (\<lambda>scope. Inr
                        [\<lparr>pid = 42, name = ''Bar'',
                          parameters = (if scope = Full
                                        then [''icons'' \<mapsto> [\<lparr>icon_format = ''png'', icon_image = ''PNG''\<rparr>]]
                                        else Map.empty),
                          app_identifier = ''com.bar''\<rparr>])\<rparr>\<rparr>
   = ([Print ''PID  Name     Identifier'',
       Print ''--  -------  -------'',
       Print (''42  '' @ ESC # '']1337;File=inline=1;width=31px;height=31px;:UE5H'' @ BEL # '' Bar  com.bar''),
       Exit 0], None)"
  by (simp add: listing_defs)

text \<open>The encoding has four characters for every three bytes begun.\<close>

lemma length_b64encode: "length (b64encode s) = 4 * ((length s + 2) div 3)"
proof (induction s rule: b64encode.induct)
  case (4 a b c rest)
  have "(length rest + 5) div 3 = Suc ((length rest + 2) div 3)" by arith
  with 4 show ?case by (simp add: Let_def add.commute)
qed (simp_all add: Let_def)

text \<open>
  Claim C10. With a nonzero icon width, the name cell of a record whose parameters
  hold an \<^verbatim>\<open>"icons"\<close> entry shows the first descriptor of that entry, whatever its
  format: the cell is the escape sequence of an inline image of the icon size in
  width and height, the base64 text of the image of that first descriptor, BEL, a
  space and the padded name. An empty entry raises IndexError (no blank placeholder);
  a record without the entry gets the blank placeholder. So a table whose icon width
  is nonzero is printed to its end exactly when no record holds an empty entry, and
  raises IndexError otherwise.
\<close>

theorem name_cell_first_icon:
  "icon_width \<noteq> 0 \<longrightarrow>
     (\<forall>icon icons. parameters item ''icons'' = Some (icon # icons) \<longrightarrow>
        name_cell size_px icon_width name_width item =
          Inr (render_icon size_px icon @ '' '' @ ljust name_width (name item)) \<and>
        name_cell size_px icon_width name_width item =
          Inr (ESC # '']1337;File=inline=1;width='' @ str_int size_px @ ''px;height='' @ str_int size_px
                 @ ''px;:'' @ b64encode (icon_image icon) @ [BEL] @ '' '' @ ljust name_width (name item)) \<and>
        length (b64encode (icon_image icon)) = 4 * ((length (icon_image icon) + 2) div 3)) \<and>
     (parameters item ''icons'' = Some [] \<longrightarrow>
        name_cell size_px icon_width name_width item = Inl IndexError) \<and>
     (parameters item ''icons'' = None \<longrightarrow>
        name_cell size_px icon_width name_width item = Inr (''   '' @ '' '' @ ljust name_width (name item))) \<and>
     (listing_icon_width processes = icon_width \<longrightarrow>
        snd (processes_table size_px processes) =
          (if \<exists>p \<in> set processes. parameters p ''icons'' = Some [] then Some IndexError else None)) \<and>
     (listing_icon_width applications = icon_width \<longrightarrow>
        snd (applications_table size_px applications) =
          (if \<exists>a \<in> set applications. parameters a ''icons'' = Some [] then Some IndexError else None))"
  by (simp add: name_cell_cases render_icon_def length_b64encode processes_table_raises applications_table_raises)

theorem name_cell_first_icon_witness:
  "name_cell 31 4 4
     \<lparr>pid = 7, name = ''zsh'',
      parameters = [''icons'' \<mapsto> [\<lparr>icon_format = ''rgba'', icon_image = ''abc''\<rparr>,
                                  \<lparr>icon_format = ''png'', icon_image = ''PNG''\<rparr>]]\<rparr>
   = Inr (ESC # '']1337;File=inline=1;width=31px;height=31px;:YWJj'' @ BEL # '' zsh '') \<and>
   name_cell 31 4 4
     \<lparr>pid = 7, name = ''zsh'',
      parameters = [''icons'' \<mapsto> [\<lparr>icon_format = ''png'', icon_image = ''PNG''\<rparr>,
                                  \<lparr>icon_format = ''rgba'', icon_image = ''abc''\<rparr>]]\<rparr>
   = Inr (ESC # '']1337;File=inline=1;width=31px;height=31px;:UE5H'' @ BEL # '' zsh '') \<and>
   name_cell 16 4 2
     \<lparr>pid = 6, name = ''sh'', parameters = [''icons'' \<mapsto> [\<lparr>icon_format = ''rgba'', icon_image = ''ab''\<rparr>]]\<rparr>
   = Inr (ESC # '']1337;File=inline=1;width=16px;height=16px;:YWI='' @ BEL # '' sh'') \<and>
   name_cell 31 4 4 \<lparr>pid = 8, name = ''cat'', parameters = [''icons'' \<mapsto> []]\<rparr> = Inl IndexError \<and>
   name_cell 31 4 4 \<lparr>pid = 9, name = ''ls'', parameters = Map.empty\<rparr> = Inr ''    ls  '' \<and>
   listing_icon_width
     [\<lparr>pid = 7, name = ''zsh'',
       parameters = [''icons'' \<mapsto> [\<lparr>icon_format = ''rgba'', icon_image = ''abc''\<rparr>,
                                   \<lparr>icon_format = ''png'', icon_image = ''PNG''\<rparr>]]\<rparr>,
      \<lparr>pid = 8, name = ''cat'', parameters = [''icons'' \<mapsto> []]\<rparr>] = 4 \<and>
   snd (processes_table 31
     [\<lparr>pid = 7, name = ''zsh'',
       parameters = [''icons'' \<mapsto> [\<lparr>icon_format = ''rgba'', icon_image = ''abc''\<rparr>,
                                   \<lparr>icon_format = ''png'', icon_image = ''PNG''\<rparr>]]\<rparr>,
      \<lparr>pid = 8, name = ''cat'', parameters = [''icons'' \<mapsto> []]\<rparr>]) = Some IndexError"
  using name_cell_first_icon
    [where icon_width = 4 and size_px = 31 and name_width = 4
       and item = "\<lparr>pid = 7, name = ''zsh'',
                     parameters = [''icons'' \<mapsto> [\<lparr>icon_format = ''rgba'', icon_image = ''abc''\<rparr>,
                                                 \<lparr>icon_format = ''png'', icon_image = ''PNG''\<rparr>]]\<rparr>"
       and processes = "[\<lparr>pid = 7, name = ''zsh'',
                          parameters = [''icons'' \<mapsto> [\<lparr>icon_format = ''rgba'', icon_image = ''abc''\<rparr>,
                                                      \<lparr>icon_format = ''png'', icon_image = ''PNG''\<rparr>]]\<rparr>,
                         \<lparr>pid = 8, name = ''cat'', parameters = [''icons'' \<mapsto> []]\<rparr>]"
       and applications = "[]"]
    name_cell_first_icon
    [where icon_width = 4 and size_px = 31 and name_width = 4
       and item = "\<lparr>pid = 7, name = ''zsh'',
                     parameters = [''icons'' \<mapsto> [\<lparr>icon_format = ''png'', icon_image = ''PNG''\<rparr>,
                                                 \<lparr>icon_format = ''rgba'', icon_image = ''abc''\<rparr>]]\<rparr>"
       and processes = "[]" and applications = "[]"]
    name_cell_first_icon
    [where icon_width = 4 and size_px = 16 and name_width = 2
       and item = "\<lparr>pid = 6, name = ''sh'',
                     parameters = [''icons'' \<mapsto> [\<lparr>icon_format = ''rgba'', icon_image = ''ab''\<rparr>]]\<rparr>"
       and processes = "[]" and applications = "[]"]
    name_cell_first_icon
    [where icon_width = 4 and size_px = 31 and name_width = 4
       and item = "\<lparr>pid = 8, name = ''cat'', parameters = [''icons'' \<mapsto> []]\<rparr>"
       and processes = "[]" and applications = "[]"]
    name_cell_first_icon
    [where icon_width = 4 and size_px = 31 and name_width = 4
       and item = "\<lparr>pid = 9, name = ''ls'', parameters = Map.empty\<rparr>"
       and processes = "[]" and applications = "[]"]
  by (simp add: listing_icon_width_def compute_icon_width_def ljust_def replicate_numeral render_icon_def
      str_int_def str_nat.simps digit_char_def b64_char_def b64_alphabet_def)

text \<open>
  Claim C8, amended. In JSON mode the listing of applications prints one entry for
  each record that the filter of line 137 keeps (every record with the option
  \<^verbatim>\<open>include_all_applications\<close>, the records with a pid other than 0 without it): the
  records listed are the records kept, each as often as it was enumerated. They are
  in the order of \<^verbatim>\<open>compare_applications\<close>, that is the running ones first and the names
  ascending within each group, and records that compare equal keep the order of the
  enumeration. Each entry has the keys \<^verbatim>\<open>pid\<close>, \<^verbatim>\<open>name\<close>, \<^verbatim>\<open>identifier\<close> in this order, \<^verbatim>\<open>pid\<close>
  being null exactly for the pid 0; then the program exits with code 0.
\<close>

theorem list_applications_json:
  assumes "try_enumerate_applications self = Inr enumerated" and "output_format self = Json"
  shows
    "let kept = (if include_all_applications self then enumerated
                 else filter (\<lambda>app. pid app \<noteq> 0) enumerated);
         listed = sorted_cmp compare_applications kept
     in list_applications self =
          ([PrintJson (JArray
              (map (\<lambda>app. JObject [(''pid'', if pid app = 0 then JNull else JInt (pid app)),
                                     (''name'', JString (name app)),
                                     (''identifier'', JString (app_identifier app))])
                 listed)),
            Exit 0], None) \<and>
        length listed = length kept \<and>
        (\<forall>a. count_list listed a = count_list kept a) \<and>
        sorted_wrt (\<lambda>a b. compare_applications a b \<le> 0) listed \<and>
        sorted_wrt (\<lambda>a b. pid a \<noteq> 0 \<and> pid b = 0 \<or> (pid a \<noteq> 0) = (pid b \<noteq> 0) \<and> name a \<le> name b) listed \<and>
        (\<forall>a. filter (\<lambda>b. compare_applications a b = 0) listed
             = filter (\<lambda>b. compare_applications a b = 0) kept)"
proof -
  define kept where "kept = (if include_all_applications self then enumerated
                 else filter (\<lambda>app. pid app \<noteq> 0) enumerated)"
  have out: "list_applications self =
          ([PrintJson (JArray
              (map (\<lambda>app. JObject [(''pid'', if pid app = 0 then JNull else JInt (pid app)),
                                     (''name'', JString (name app)),
                                     (''identifier'', JString (app_identifier app))])
                 (sorted_cmp compare_applications kept))),
            Exit 0], None)"
  proof (cases "kept = []")
    case True
    then show ?thesis
      using assms unfolding kept_def
      by (auto simp: list_applications_def and_then_def Let_def split: if_splits)
  next
    case False
    then show ?thesis
      using assms unfolding kept_def
      by (auto simp: list_applications_def and_then_def Let_def split: if_splits)
  qed
  have plain: "sorted_wrt (\<lambda>a b. pid a \<noteq> 0 \<and> pid b = 0 \<or> (pid a \<noteq> 0) = (pid b \<noteq> 0) \<and> name a \<le> name b)
      (sorted_cmp compare_applications kept)"
    using sorted_applications [of kept] unfolding compare_applications_le0 .
  show ?thesis
    unfolding Let_def kept_def [symmetric]
    using out plain
    by (simp add: length_sorted_cmp count_sorted_cmp sorted_applications stable_applications)
qed

theorem list_applications_json_witness:
  "list_applications
     \<lparr>list_only_applications = True, include_all_applications = True, output_format = Json,
      exclude_icons = False, terminal_type = Simple, icon_size = 0,
      device = Some \<lparr>enumerate_processes = (\<lambda>scope. Inr []),
                      enumerate_applications = (\<lambda>scope. Inr
                        [\<lparr>pid = 0, name = ''Foo'', parameters = Map.empty, app_identifier = ''com.foo''\<rparr>,
                         \<lparr>pid = 42, name = ''Bar'', parameters = Map.empty, app_identifier = ''com.bar''\<rparr>])\<rparr>\<rparr>
   = ([PrintJson (JArray
         [JObject [(''pid'', JInt 42), (''name'', JString ''Bar''), (''identifier'', JString ''com.bar'')],
          JObject [(''pid'', JNull), (''name'', JString ''Foo''), (''identifier'', JString ''com.foo'')]]),
       Exit 0], None) \<and>
   list_applications
     \<lparr>list_only_applications = True, include_all_applications = True, output_format = Json,
      exclude_icons = False, terminal_type = Simple, icon_size = 0,
      device = Some \<lparr>enumerate_processes = (\<lambda>scope. Inr []),
                      enumerate_applications = (\<lambda>scope. Inr
                        [\<lparr>pid = 0, name = ''Foo'', parameters = Map.empty, app_identifier = ''com.foo''\<rparr>,
                         \<lparr>pid = 43, name = ''Bar'', parameters = Map.empty, app_identifier = ''com.bar.two''\<rparr>,
                         \<lparr>pid = 7, name = ''Baz'', parameters = Map.empty, app_identifier = ''com.baz''\<rparr>,
                         \<lparr>pid = 42, name = ''Bar'', parameters = Map.empty, app_identifier = ''com.bar''\<rparr>,
                         \<lparr>pid = 0, name = ''Abc'', parameters = Map.empty, app_identifier = ''com.abc''\<rparr>])\<rparr>\<rparr>
   = ([PrintJson (JArray
         [JObject [(''pid'', JInt 43), (''name'', JString ''Bar''), (''identifier'', JString ''com.bar.two'')],
          JObject [(''pid'', JInt 42), (''name'', JString ''Bar''), (''identifier'', JString ''com.bar'')],
          JObject [(''pid'', JInt 7), (''name'', JString ''Baz''), (''identifier'', JString ''com.baz'')],
          JObject [(''pid'', JNull), (''name'', JString ''Abc''), (''identifier'', JString ''com.abc'')],
          JObject [(''pid'', JNull), (''name'', JString ''Foo''), (''identifier'', JString ''com.foo'')]]),
       Exit 0], None)"
  using list_applications_json
    [where self = "\<lparr>list_only_applications = True, include_all_applications = True, output_format = Json,
      exclude_icons = False, terminal_type = Simple, icon_size = 0,
      device = Some \<lparr>enumerate_processes = (\<lambda>scope. Inr []),
                      enumerate_applications = (\<lambda>scope. Inr
                        [\<lparr>pid = 0, name = ''Foo'', parameters = Map.empty, app_identifier = ''com.foo''\<rparr>,
                         \<lparr>pid = 42, name = ''Bar'', parameters = Map.empty, app_identifier = ''com.bar''\<rparr>])\<rparr>\<rparr>"
       and enumerated = "[\<lparr>pid = 0, name = ''Foo'', parameters = Map.empty, app_identifier = ''com.foo''\<rparr>,
                         \<lparr>pid = 42, name = ''Bar'', parameters = Map.empty, app_identifier = ''com.bar''\<rparr>]"]
    list_applications_json
    [where self = "\<lparr>list_only_applications = True, include_all_applications = True, output_format = Json,
      exclude_icons = False, terminal_type = Simple, icon_size = 0,
      device = Some \<lparr>enumerate_processes = (\<lambda>scope. Inr []),
                      enumerate_applications = (\<lambda>scope. Inr
                        [\<lparr>pid = 0, name = ''Foo'', parameters = Map.empty, app_identifier = ''com.foo''\<rparr>,
                         \<lparr>pid = 43, name = ''Bar'', parameters = Map.empty, app_identifier = ''com.bar.two''\<rparr>,
                         \<lparr>pid = 7, name = ''Baz'', parameters = Map.empty, app_identifier = ''com.baz''\<rparr>,
                         \<lparr>pid = 42, name = ''Bar'', parameters = Map.empty, app_identifier = ''com.bar''\<rparr>,
                         \<lparr>pid = 0, name = ''Abc'', parameters = Map.empty, app_identifier = ''com.abc''\<rparr>])\<rparr>\<rparr>"
       and enumerated = "[\<lparr>pid = 0, name = ''Foo'', parameters = Map.empty, app_identifier = ''com.foo''\<rparr>,
                         \<lparr>pid = 43, name = ''Bar'', parameters = Map.empty, app_identifier = ''com.bar.two''\<rparr>,
                         \<lparr>pid = 7, name = ''Baz'', parameters = Map.empty, app_identifier = ''com.baz''\<rparr>,
                         \<lparr>pid = 42, name = ''Bar'', parameters = Map.empty, app_identifier = ''com.bar''\<rparr>,
                         \<lparr>pid = 0, name = ''Abc'', parameters = Map.empty, app_identifier = ''com.abc''\<rparr>]"]
  by (simp add: try_enumerate_applications_def compare_applications_def)

text \<open>
  The claim as stated fails without the option \<^verbatim>\<open>include_all_applications\<close>: for the two
  records of the example only the running one is printed.
\<close>

theorem list_applications_json_running_only_counterexample:
  "list_applications
     \<lparr>list_only_applications = True, include_all_applications = False, output_format = Json,
      exclude_icons = False, terminal_type = Simple, icon_size = 0,
      device = Some \<lparr>enumerate_processes = (\<lambda>scope. Inr []),
                      enumerate_applications = (\<lambda>scope. Inr
                        [\<lparr>pid = 0, name = ''Foo'', parameters = Map.empty, app_identifier = ''com.foo''\<rparr>,
                         \<lparr>pid = 42, name = ''Bar'', parameters = Map.empty, app_identifier = ''com.bar''\<rparr>])\<rparr>\<rparr>
   = ([PrintJson (JArray
         [JObject [(''pid'', JInt 42), (''name'', JString ''Bar''), (''identifier'', JString ''com.bar'')]]),
       Exit 0], None)"
  by (simp add: listing_defs)


end
